theory Spec2Isabelle
  imports Main "HOL-Library.AList"
begin

section \<open>Values of the Go program\<close>

text \<open>
  The package \<open>agentcore\<close> (files \<open>stack.go\<close>, \<open>builder.go\<close>, \<open>loader.go\<close>) translates
  an \<open>iac.StackConfig\<close> into resource registrations against the Pulumi SDK. Two
  collaborators are outside the package: the configuration package \<open>iac\<close> (its functions
  \<open>ApplyDefaults\<close>, \<open>Validate\<close>, \<open>LoadStackConfigFromFile\<close>, \<open>DefaultAgentConfig\<close>,
  \<open>DefaultIAMConfig\<close>) and the provisioning engine behind the SDK constructors
  (\<open>ec2.NewVpc\<close>, \<open>iam.NewRole\<close>, ...). Both are parameters of the model, collected in the
  record \<open>externals\<close> below.
\<close>

type_synonym addr = nat

text \<open>
  A Go map is an association list with distinct keys; \<open>m[k] = v\<close> is \<open>AList.update k v\<close>,
  a lookup is \<open>map_of\<close>, and \<open>range\<close> visits the entries in list order (Go leaves the
  order open; no result below depends on it when the keys are distinct).
\<close>

type_synonym 'v gomap = "(string \<times> 'v) list"

text \<open>
  Errors: an error produced by a collaborator carries its message; \<open>Errorf p e\<close> is
  \<open>fmt.Errorf(p + "%w", e)\<close>, which prefixes the message and wraps \<open>e\<close>.
\<close>

datatype error = ExternalError string | Errorf string error

fun Error :: "error \<Rightarrow> string" where
  "Error (ExternalError m) = m"
| "Error (Errorf p e) = p @ Error e"

fun Unwrap :: "error \<Rightarrow> error option" where
  "Unwrap (ExternalError m) = None"
| "Unwrap (Errorf p e) = Some e"

text \<open>
  A call either returns or panics. The panics of this package are the two explicit
  \<open>panic(...)\<close> calls of the \<open>Must\<close> wrappers, the dereference of a nil pointer field of
  the configuration, and the assignment to an entry of a nil map.
\<close>

datatype panic_value =
    NilDereference
  | NilMapAssignment
  | PanicError error
  | PanicString string

datatype 'a outcome = Panic panic_value | Return 'a

text \<open>
  Pulumi input values. A resource handle is the logical name the resource was registered
  under: \<open>PID n\<close> is \<open>r.ID()\<close> of the resource named \<open>n\<close>, \<open>PAttr n a\<close> is its output
  attribute \<open>a\<close> (\<open>role.Name\<close>, \<open>policy.Arn\<close>). \<open>pulumi.Sprintf\<close> of plain Go strings
  is the formatted string. \<open>PUnset\<close> is a nil input.
\<close>

datatype pvalue =
    PUnset
  | PString string
  | PBool bool
  | PInt int
  | PID string
  | PAttr string string
  | PArray "pvalue list"
  | PArgs "(string \<times> pvalue) list"
  | PStringMap "(string \<times> pvalue) list"

text \<open>One resource registration: the SDK constructor, the logical name, the argument
  struct field by field in source order, and the \<open>pulumi.DependsOn\<close> option.\<close>

record request =
  rtype :: string
  rname :: string
  args :: "(string \<times> pvalue) list"
  dependsOn :: "string list"

subsection \<open>Configuration structs of package iac, as this package uses them\<close>

record VPCConfig =
  CreateVPC :: bool
  VPCCidr :: string
  MaxAZs :: int
  EnableVPCEndpoints :: bool
  VPCID :: string
  SubnetIDs :: "string list"

record SecretsConfig =
  CreateSecrets :: bool
  SecretValues :: "addr option"

record ObservabilityConfig =
  Provider :: string
  Project :: string
  APIKeySecretARN :: string
  EnableCloudWatchLogs :: bool
  LogRetentionDays :: int

record IAMConfig =
  RoleARN :: string
  EnableBedrockAccess :: bool
  BedrockModelIDs :: "string list"

text \<open>\<open>Environment\<close> is a Go map: a reference into the heap, \<open>None\<close> for the nil map.\<close>

record AgentConfig =
  Name :: string
  ContainerImage :: string
  AgentDescription :: string
  MemoryMB :: int
  TimeoutSeconds :: int
  Environment :: "addr option"
  SecretsARNs :: "string list"
  IsDefault :: bool

text \<open>
  \<open>VPC\<close>, \<open>Secrets\<close>, \<open>Observability\<close> and \<open>IAM\<close> are pointer fields (\<open>None\<close> is nil).
  No code of this package writes through the first three, so their pointees are held by
  value; \<open>WithBedrockModels\<close> writes through \<open>IAM\<close>, so \<open>IAM\<close> is an address of an
  \<open>IAMConfig\<close> object in the heap. \<open>Tags\<close> is a Go map, written in place by \<open>WithTag\<close>.
\<close>

record StackConfig =
  StackName :: string
  Description :: string
  Agents :: "AgentConfig list"
  VPC :: "VPCConfig option"
  Secrets :: "SecretsConfig option"
  Observability :: "ObservabilityConfig option"
  IAM :: "addr option"
  Tags :: "addr option"
  RemovalPolicy :: string

record StackBuilder =
  config :: StackConfig

record AgentBuilder =
  agent_config :: AgentConfig

subsection \<open>The Go heap and the Pulumi context\<close>

text \<open>
  The heap holds the objects that are shared by reference: \<open>map[string]string\<close> objects,
  \<open>pulumi.StringMap\<close> objects, \<open>IAMConfig\<close> objects, and the two kinds of builder.
  Addresses below \<open>next_addr\<close> are allocated.
\<close>

record heap =
  strmaps :: "addr \<Rightarrow> string gomap"
  stringmaps :: "addr \<Rightarrow> pvalue gomap"
  iamcfgs :: "addr \<Rightarrow> IAMConfig"
  stackbuilders :: "addr \<Rightarrow> StackBuilder"
  agentbuilders :: "addr \<Rightarrow> AgentBuilder"
  next_addr :: addr

text \<open>The \<open>*pulumi.Context\<close>: the registrations issued so far, in order (a rejected
  registration is recorded too: it was issued), and the \<open>ctx.Export\<close> calls.\<close>

record Context =
  requests :: "request list"
  exports :: "(string \<times> pvalue) list"

record state =
  ctx :: Context
  heap :: heap

text \<open>
  The collaborators. \<open>engine X log r\<close> is the engine's answer to the registration \<open>r\<close>
  after the registrations \<open>log\<close>: \<open>None\<close> accepts, \<open>Some e\<close> is the error the SDK
  constructor returns. The \<open>iac\<close> functions have no context argument, so they transform
  the heap only. \<open>default_agent\<close> and \<open>default_agent_env\<close> are the struct and the
  contents of the \<open>Environment\<close> map (\<open>None\<close>: nil) that \<open>iac.DefaultAgentConfig\<close>
  returns; \<open>default_iam\<close> is the object \<open>iac.DefaultIAMConfig\<close> points to.
\<close>

record externals =
  ApplyDefaults :: "heap \<Rightarrow> StackConfig \<Rightarrow> heap \<times> StackConfig"
  Validate :: "heap \<Rightarrow> StackConfig \<Rightarrow> error option"
  LoadStackConfigFromFile :: "heap \<Rightarrow> string \<Rightarrow> heap \<times> (error + StackConfig)"
  default_agent :: "string \<Rightarrow> string \<Rightarrow> AgentConfig"
  default_agent_env :: "string \<Rightarrow> string \<Rightarrow> string gomap option"
  default_iam :: IAMConfig
  engine :: "request list \<Rightarrow> request \<Rightarrow> error option"

section \<open>stack.go\<close>

subsection \<open>mergeTags\<close>

text \<open>\<open>pulumi.StringMap{}\<close>: a new, empty map object.\<close>

definition new_StringMap :: "heap \<Rightarrow> heap \<times> addr" where
  "new_StringMap h =
     (h\<lparr>stringmaps := (stringmaps h)(next_addr h := []), next_addr := Suc (next_addr h)\<rparr>,
      next_addr h)"

text \<open>\<open>m[k] = v\<close> on a \<open>pulumi.StringMap\<close> object.\<close>

definition StringMap_set :: "heap \<Rightarrow> addr \<Rightarrow> string \<Rightarrow> pvalue \<Rightarrow> heap" where
  "StringMap_set h m k v = h\<lparr>stringmaps := (stringmaps h)(m := AList.update k v (stringmaps h m))\<rparr>"

text \<open>The entries \<open>range\<close> visits: none for the nil map.\<close>

definition StringMap_entries :: "heap \<Rightarrow> addr option \<Rightarrow> pvalue gomap" where
  "StringMap_entries h m = (case m of None \<Rightarrow> [] | Some a \<Rightarrow> stringmaps h a)"

text \<open>The loop \<open>for k, v := range base { result[k] = v }\<close>.\<close>

fun copy_entries :: "heap \<Rightarrow> addr \<Rightarrow> pvalue gomap \<Rightarrow> heap" where
  "copy_entries h result [] = h"
| "copy_entries h result ((k, v) # es) = copy_entries (StringMap_set h result k v) result es"

definition mergeTags :: "heap \<Rightarrow> addr option \<Rightarrow> pvalue \<Rightarrow> heap \<times> addr" where
  "mergeTags h base name =
     (let (h1, result) = new_StringMap h;
          h2 = copy_entries h1 result (StringMap_entries h1 base);
          h3 = StringMap_set h2 result ''Name'' name
      in (h3, result))"

subsection \<open>AgentCoreStack and the SDK constructors\<close>

text \<open>The resource fields hold handles: \<open>None\<close> is the nil pointer, \<open>Some n\<close> the handle
  of the resource registered under the logical name \<open>n\<close>. \<open>stack_VPC\<close> is the field
  \<open>VPC\<close> of the Go struct (the name \<open>VPC\<close> is taken by the field of \<open>StackConfig\<close>).\<close>

record AgentCoreStack =
  Config :: StackConfig
  stack_VPC :: "string option"
  PublicSubnet :: "string option"
  PrivateSubnet :: "string option"
  InternetGateway :: "string option"
  NatGateway :: "string option"
  SecurityGroup :: "string option"
  ExecutionRole :: "string option"
  LogGroup :: "string option"
  Outputs :: "pvalue gomap"

text \<open>An SDK constructor (\<open>ec2.NewVpc(ctx, name, args, opts...)\<close> and its siblings) issues
  the registration and returns the handle or the engine's error.\<close>

definition RegisterResource ::
  "externals \<Rightarrow> Context \<Rightarrow> request \<Rightarrow> Context \<times> string option \<times> error option" where
  "RegisterResource X c r =
     (c\<lparr>requests := requests c @ [r]\<rparr>,
      case engine X (requests c) r of
        None \<Rightarrow> (Some (rname r), None)
      | Some e \<Rightarrow> (None, Some e))"

subsection \<open>createVPC\<close>

text \<open>The argument structs of the ten registrations of \<open>createVPC\<close>, in source order.
  Each is read after the registration it refers to has succeeded, so \<open>s.VPC.ID()\<close> is
  \<open>PID ''vpc''\<close>, and so on.\<close>

definition req_vpc :: "string \<Rightarrow> pvalue gomap \<Rightarrow> request" where
  "req_vpc cidr tags =
     \<lparr>rtype = ''ec2.Vpc'', rname = ''vpc'',
      args = [(''CidrBlock'', PString cidr),
              (''EnableDnsHostnames'', PBool True),
              (''EnableDnsSupport'', PBool True),
              (''Tags'', PStringMap tags)],
      dependsOn = []\<rparr>"

definition req_igw :: "pvalue gomap \<Rightarrow> request" where
  "req_igw tags =
     \<lparr>rtype = ''ec2.InternetGateway'', rname = ''igw'',
      args = [(''VpcId'', PID ''vpc''),
              (''Tags'', PStringMap tags)],
      dependsOn = []\<rparr>"

definition req_public_subnet :: "pvalue gomap \<Rightarrow> request" where
  "req_public_subnet tags =
     \<lparr>rtype = ''ec2.Subnet'', rname = ''public-subnet'',
      args = [(''VpcId'', PID ''vpc''),
              (''CidrBlock'', PString ''10.0.1.0/24''),
              (''MapPublicIpOnLaunch'', PBool True),
              (''Tags'', PStringMap tags)],
      dependsOn = []\<rparr>"

definition req_private_subnet :: "pvalue gomap \<Rightarrow> request" where
  "req_private_subnet tags =
     \<lparr>rtype = ''ec2.Subnet'', rname = ''private-subnet'',
      args = [(''VpcId'', PID ''vpc''),
              (''CidrBlock'', PString ''10.0.10.0/24''),
              (''Tags'', PStringMap tags)],
      dependsOn = []\<rparr>"

definition req_nat_eip :: "pvalue gomap \<Rightarrow> request" where
  "req_nat_eip tags =
     \<lparr>rtype = ''ec2.Eip'', rname = ''nat-eip'',
      args = [(''Domain'', PString ''vpc''),
              (''Tags'', PStringMap tags)],
      dependsOn = [''igw'']\<rparr>"

definition req_nat :: "pvalue gomap \<Rightarrow> request" where
  "req_nat tags =
     \<lparr>rtype = ''ec2.NatGateway'', rname = ''nat'',
      args = [(''AllocationId'', PID ''nat-eip''),
              (''SubnetId'', PID ''public-subnet''),
              (''Tags'', PStringMap tags)],
      dependsOn = [''igw'']\<rparr>"

definition req_public_rt :: "pvalue gomap \<Rightarrow> request" where
  "req_public_rt tags =
     \<lparr>rtype = ''ec2.RouteTable'', rname = ''public-rt'',
      args = [(''VpcId'', PID ''vpc''),
              (''Routes'', PArray [PArgs [(''CidrBlock'', PString ''0.0.0.0/0''),
                                         (''GatewayId'', PID ''igw'')]]),
              (''Tags'', PStringMap tags)],
      dependsOn = []\<rparr>"

definition req_public_rta :: request where
  "req_public_rta =
     \<lparr>rtype = ''ec2.RouteTableAssociation'', rname = ''public-rta'',
      args = [(''SubnetId'', PID ''public-subnet''),
              (''RouteTableId'', PID ''public-rt'')],
      dependsOn = []\<rparr>"

definition req_private_rt :: "pvalue gomap \<Rightarrow> request" where
  "req_private_rt tags =
     \<lparr>rtype = ''ec2.RouteTable'', rname = ''private-rt'',
      args = [(''VpcId'', PID ''vpc''),
              (''Routes'', PArray [PArgs [(''CidrBlock'', PString ''0.0.0.0/0''),
                                         (''NatGatewayId'', PID ''nat'')]]),
              (''Tags'', PStringMap tags)],
      dependsOn = []\<rparr>"

definition req_private_rta :: request where
  "req_private_rta =
     \<lparr>rtype = ''ec2.RouteTableAssociation'', rname = ''private-rta'',
      args = [(''SubnetId'', PID ''private-subnet''),
              (''RouteTableId'', PID ''private-rt'')],
      dependsOn = []\<rparr>"

text \<open>\<open>createVPC\<close> mutates the stack \<open>s\<close> and returns an error; the model returns the
  updated stack with the error. \<open>tags\<close> is the address of the base tag map.\<close>

definition createVPC ::
  "externals \<Rightarrow> state \<Rightarrow> AgentCoreStack \<Rightarrow> addr \<Rightarrow> state \<times> (AgentCoreStack \<times> error option) outcome" where
  "createVPC X st s tags =
     (case VPC (Config s) of
        None \<Rightarrow> (st, Panic NilDereference)
      | Some vpccfg \<Rightarrow>
     let stackName = StackName (Config s);
         (h1, t1) = mergeTags (heap st) (Some tags) (PString (stackName @ ''-vpc''));
         (c1, r1, err1) = RegisterResource X (ctx st) (req_vpc (VPCCidr vpccfg) (stringmaps h1 t1));
         s1 = s\<lparr>stack_VPC := r1\<rparr>
     in if err1 \<noteq> None then (\<lparr>ctx = c1, heap = h1\<rparr>, Return (s1, err1)) else
     let (h2, t2) = mergeTags h1 (Some tags) (PString (stackName @ ''-igw''));
         (c2, r2, err2) = RegisterResource X c1 (req_igw (stringmaps h2 t2));
         s2 = s1\<lparr>InternetGateway := r2\<rparr>
     in if err2 \<noteq> None then (\<lparr>ctx = c2, heap = h2\<rparr>, Return (s2, err2)) else
     let (h3, t3) = mergeTags h2 (Some tags) (PString (stackName @ ''-public''));
         (c3, r3, err3) = RegisterResource X c2 (req_public_subnet (stringmaps h3 t3));
         s3 = s2\<lparr>PublicSubnet := r3\<rparr>
     in if err3 \<noteq> None then (\<lparr>ctx = c3, heap = h3\<rparr>, Return (s3, err3)) else
     let (h4, t4) = mergeTags h3 (Some tags) (PString (stackName @ ''-private''));
         (c4, r4, err4) = RegisterResource X c3 (req_private_subnet (stringmaps h4 t4));
         s4 = s3\<lparr>PrivateSubnet := r4\<rparr>
     in if err4 \<noteq> None then (\<lparr>ctx = c4, heap = h4\<rparr>, Return (s4, err4)) else
     let (h5, t5) = mergeTags h4 (Some tags) (PString (stackName @ ''-nat-eip''));
         (c5, eip, err5) = RegisterResource X c4 (req_nat_eip (stringmaps h5 t5))
     in if err5 \<noteq> None then (\<lparr>ctx = c5, heap = h5\<rparr>, Return (s4, err5)) else
     let (h6, t6) = mergeTags h5 (Some tags) (PString (stackName @ ''-nat''));
         (c6, r6, err6) = RegisterResource X c5 (req_nat (stringmaps h6 t6));
         s6 = s4\<lparr>NatGateway := r6\<rparr>
     in if err6 \<noteq> None then (\<lparr>ctx = c6, heap = h6\<rparr>, Return (s6, err6)) else
     let (h7, t7) = mergeTags h6 (Some tags) (PString (stackName @ ''-public-rt''));
         (c7, publicRouteTable, err7) = RegisterResource X c6 (req_public_rt (stringmaps h7 t7))
     in if err7 \<noteq> None then (\<lparr>ctx = c7, heap = h7\<rparr>, Return (s6, err7)) else
     let (c8, r8, err8) = RegisterResource X c7 req_public_rta
     in if err8 \<noteq> None then (\<lparr>ctx = c8, heap = h7\<rparr>, Return (s6, err8)) else
     let (h9, t9) = mergeTags h7 (Some tags) (PString (stackName @ ''-private-rt''));
         (c9, privateRouteTable, err9) = RegisterResource X c8 (req_private_rt (stringmaps h9 t9))
     in if err9 \<noteq> None then (\<lparr>ctx = c9, heap = h9\<rparr>, Return (s6, err9)) else
     let (c10, r10, err10) = RegisterResource X c9 req_private_rta
     in if err10 \<noteq> None then (\<lparr>ctx = c10, heap = h9\<rparr>, Return (s6, err10)) else
     (\<lparr>ctx = c10, heap = h9\<rparr>, Return (s6, None)))"

subsection \<open>createSecurityGroup\<close>

definition req_sg :: "string \<Rightarrow> pvalue \<Rightarrow> pvalue gomap \<Rightarrow> request" where
  "req_sg stackName vpcId tags =
     \<lparr>rtype = ''ec2.SecurityGroup'', rname = ''sg'',
      args = [(''Name'', PString (stackName @ ''-sg'')),
              (''Description'', PString (''Security group for '' @ stackName @ '' AgentCore agents'')),
              (''VpcId'', vpcId),
              (''Egress'', PArray [PArgs [(''Protocol'', PString ''-1''),
                                         (''FromPort'', PInt 0),
                                         (''ToPort'', PInt 0),
                                         (''CidrBlocks'', PArray [PString ''0.0.0.0/0''])]]),
              (''Tags'', PStringMap tags)],
      dependsOn = []\<rparr>"

definition req_sg_self_ingress :: request where
  "req_sg_self_ingress =
     \<lparr>rtype = ''ec2.SecurityGroupRule'', rname = ''sg-self-ingress'',
      args = [(''Type'', PString ''ingress''),
              (''SecurityGroupId'', PID ''sg''),
              (''SourceSecurityGroupId'', PID ''sg''),
              (''Protocol'', PString ''-1''),
              (''FromPort'', PInt 0),
              (''ToPort'', PInt 0),
              (''Description'', PString ''Allow communication between agents'')],
      dependsOn = []\<rparr>"

text \<open>The \<open>vpcId\<close> input: the new VPC's id when the stack holds one, else the configured
  identifier when it is not empty, else nil. Reading \<open>s.Config.VPC.VPCID\<close> dereferences
  the \<open>VPC\<close> pointer.\<close>

definition sg_vpcId :: "AgentCoreStack \<Rightarrow> pvalue outcome" where
  "sg_vpcId s =
     (case stack_VPC s of
        Some v \<Rightarrow> Return (PID v)
      | None \<Rightarrow>
          (case VPC (Config s) of
             None \<Rightarrow> Panic NilDereference
           | Some vpccfg \<Rightarrow> if VPCID vpccfg \<noteq> '''' then Return (PString (VPCID vpccfg)) else Return PUnset))"

definition createSecurityGroup ::
  "externals \<Rightarrow> state \<Rightarrow> AgentCoreStack \<Rightarrow> addr \<Rightarrow> state \<times> (AgentCoreStack \<times> error option) outcome" where
  "createSecurityGroup X st s tags =
     (let stackName = StackName (Config s) in
      case sg_vpcId s of
        Panic p \<Rightarrow> (st, Panic p)
      | Return vpcId \<Rightarrow>
     let (h1, t1) = mergeTags (heap st) (Some tags) (PString (stackName @ ''-sg''));
         (c1, r1, err1) = RegisterResource X (ctx st) (req_sg stackName vpcId (stringmaps h1 t1));
         s1 = s\<lparr>SecurityGroup := r1\<rparr>
     in if err1 \<noteq> None then (\<lparr>ctx = c1, heap = h1\<rparr>, Return (s1, err1)) else
     let (c2, r2, err2) = RegisterResource X c1 req_sg_self_ingress
     in if err2 \<noteq> None then (\<lparr>ctx = c2, heap = h1\<rparr>, Return (s1, err2)) else
     (\<lparr>ctx = c2, heap = h1\<rparr>, Return (s1, None)))"

subsection \<open>createIAMRole and buildIAMPolicyStatements\<close>

text \<open>The Go raw string literals are indented with tab characters.\<close>

definition tab :: char where
  "tab = CHR 0x09"

definition assumeRolePolicy :: string where
  \<open>assumeRolePolicy =
      ''{\<newline>'' @
      [tab, tab] @ ''"Version": "2012-10-17",\<newline>'' @
      [tab, tab] @ ''"Statement": [\<newline>'' @
      [tab, tab, tab] @ ''{\<newline>'' @
      [tab, tab, tab, tab] @ ''"Effect": "Allow",\<newline>'' @
      [tab, tab, tab, tab] @ ''"Principal": {\<newline>'' @
      [tab, tab, tab, tab, tab] @ ''"Service": ["bedrock.amazonaws.com", "lambda.amazonaws.com"]\<newline>'' @
      [tab, tab, tab, tab] @ ''},\<newline>'' @
      [tab, tab, tab, tab] @ ''"Action": "sts:AssumeRole"\<newline>'' @
      [tab, tab, tab] @ ''}\<newline>'' @
      [tab, tab] @ '']\<newline>'' @
      [tab] @ ''}''\<close>

definition logs_statement :: string where
  \<open>logs_statement =
      ''{\<newline>'' @
      [tab, tab, tab] @ ''"Effect": "Allow",\<newline>'' @
      [tab, tab, tab] @ ''"Action": [\<newline>'' @
      [tab, tab, tab, tab] @ ''"logs:CreateLogGroup",\<newline>'' @
      [tab, tab, tab, tab] @ ''"logs:CreateLogStream",\<newline>'' @
      [tab, tab, tab, tab] @ ''"logs:PutLogEvents"\<newline>'' @
      [tab, tab, tab] @ ''],\<newline>'' @
      [tab, tab, tab] @ ''"Resource": "arn:aws:logs:*:*:*"\<newline>'' @
      [tab, tab] @ ''}''\<close>

definition ecr_statement :: string where
  \<open>ecr_statement =
      ''{\<newline>'' @
      [tab, tab, tab] @ ''"Effect": "Allow",\<newline>'' @
      [tab, tab, tab] @ ''"Action": [\<newline>'' @
      [tab, tab, tab, tab] @ ''"ecr:GetAuthorizationToken",\<newline>'' @
      [tab, tab, tab, tab] @ ''"ecr:BatchCheckLayerAvailability",\<newline>'' @
      [tab, tab, tab, tab] @ ''"ecr:GetDownloadUrlForLayer",\<newline>'' @
      [tab, tab, tab, tab] @ ''"ecr:BatchGetImage"\<newline>'' @
      [tab, tab, tab] @ ''],\<newline>'' @
      [tab, tab, tab] @ ''"Resource": "*"\<newline>'' @
      [tab, tab] @ ''}''\<close>

text \<open>The Bedrock statement, \<open>fmt.Sprintf\<close> of its template and the resource.\<close>

definition bedrock_statement :: "string \<Rightarrow> string" where
  \<open>bedrock_statement bedrockResource =
      ''{\<newline>'' @
      [tab, tab, tab] @ ''"Effect": "Allow",\<newline>'' @
      [tab, tab, tab] @ ''"Action": [\<newline>'' @
      [tab, tab, tab, tab] @ ''"bedrock:InvokeModel",\<newline>'' @
      [tab, tab, tab, tab] @ ''"bedrock:InvokeModelWithResponseStream"\<newline>'' @
      [tab, tab, tab] @ ''],\<newline>'' @
      [tab, tab, tab] @ ''"Resource": '' @ bedrockResource @ ''\<newline>'' @
      [tab, tab] @ ''}''\<close>

definition secrets_statement :: string where
  \<open>secrets_statement =
      ''{\<newline>'' @
      [tab, tab, tab] @ ''"Effect": "Allow",\<newline>'' @
      [tab, tab, tab] @ ''"Action": [\<newline>'' @
      [tab, tab, tab, tab] @ ''"secretsmanager:GetSecretValue"\<newline>'' @
      [tab, tab, tab] @ ''],\<newline>'' @
      [tab, tab, tab] @ ''"Resource": "*"\<newline>'' @
      [tab, tab] @ ''}''\<close>

definition policy_document :: "string \<Rightarrow> string" where
  \<open>policy_document statementsJSON =
      ''{\<newline>'' @
      [tab, tab] @ ''"Version": "2012-10-17",\<newline>'' @
      [tab, tab] @ ''"Statement": ['' @ statementsJSON @ '']\<newline>'' @
      [tab] @ ''}''\<close>

text \<open>The loop over \<open>BedrockModelIDs\<close>, with its index \<open>i\<close> and the accumulator
  \<open>resources\<close>.\<close>

fun model_resources :: "nat \<Rightarrow> string list \<Rightarrow> string \<Rightarrow> string" where
  \<open>model_resources i [] resources = resources\<close>
| \<open>model_resources i (modelID # rest) resources =
     model_resources (Suc i) rest
       ((if i > 0 then resources @ '', '' else resources) @
        ''"arn:aws:bedrock:*:*:foundation-model/'' @ modelID @ ''"'')\<close>

definition bedrockResource :: "string list \<Rightarrow> string" where
  \<open>bedrockResource modelIDs =
     (if length modelIDs > 0 then ''['' @ model_resources 0 modelIDs '''' @ '']''
      else ''"arn:aws:bedrock:*:*:foundation-model/*"'')\<close>

text \<open>The loop that sets \<open>hasSecrets\<close> and breaks at the first agent with secrets.\<close>

fun hasSecrets :: "AgentConfig list \<Rightarrow> bool" where
  "hasSecrets [] = False"
| "hasSecrets (agent # rest) = (if length (SecretsARNs agent) > 0 then True else hasSecrets rest)"

text \<open>The slice \<open>statements\<close> before it is joined.\<close>

definition policy_statements :: "IAMConfig \<Rightarrow> AgentConfig list \<Rightarrow> string list" where
  "policy_statements iam agents =
     (let statements = [logs_statement, ecr_statement];
          statements = (if EnableBedrockAccess iam
                        then statements @ [bedrock_statement (bedrockResource (BedrockModelIDs iam))]
                        else statements);
          statements = (if hasSecrets agents then statements @ [secrets_statement] else statements)
      in statements)"

text \<open>The loop that joins the statements with commas.\<close>

fun join_statements :: "nat \<Rightarrow> string list \<Rightarrow> string \<Rightarrow> string" where
  "join_statements i [] statementsJSON = statementsJSON"
| "join_statements i (stmt # rest) statementsJSON =
     join_statements (Suc i) rest ((if i > 0 then statementsJSON @ '','' else statementsJSON) @ stmt)"

text \<open>\<open>s.Config.IAM.EnableBedrockAccess\<close> dereferences the \<open>IAM\<close> pointer.\<close>

definition buildIAMPolicyStatements :: "heap \<Rightarrow> AgentCoreStack \<Rightarrow> string outcome" where
  "buildIAMPolicyStatements h s =
     (case IAM (Config s) of
        None \<Rightarrow> Panic NilDereference
      | Some p \<Rightarrow>
          Return (policy_document
                    (join_statements 0 (policy_statements (iamcfgs h p) (Agents (Config s))) '''')))"

definition req_execution_role :: "string \<Rightarrow> pvalue gomap \<Rightarrow> request" where
  "req_execution_role stackName tags =
     \<lparr>rtype = ''iam.Role'', rname = ''execution-role'',
      args = [(''Name'', PString (stackName @ ''-execution-role'')),
              (''Description'', PString (''Execution role for '' @ stackName @ '' AgentCore agents'')),
              (''AssumeRolePolicy'', PString assumeRolePolicy),
              (''Tags'', PStringMap tags)],
      dependsOn = []\<rparr>"

definition req_execution_policy :: "string \<Rightarrow> string \<Rightarrow> request" where
  "req_execution_policy stackName policyStatements =
     \<lparr>rtype = ''iam.Policy'', rname = ''execution-policy'',
      args = [(''Name'', PString (stackName @ ''-execution-policy'')),
              (''Description'', PString (''Execution policy for '' @ stackName @ '' AgentCore agents'')),
              (''Policy'', PString policyStatements)],
      dependsOn = []\<rparr>"

definition req_execution_policy_attachment :: request where
  "req_execution_policy_attachment =
     \<lparr>rtype = ''iam.RolePolicyAttachment'', rname = ''execution-policy-attachment'',
      args = [(''Role'', PAttr ''execution-role'' ''Name''),
              (''PolicyArn'', PAttr ''execution-policy'' ''Arn'')],
      dependsOn = []\<rparr>"

definition createIAMRole ::
  "externals \<Rightarrow> state \<Rightarrow> AgentCoreStack \<Rightarrow> addr \<Rightarrow> state \<times> (AgentCoreStack \<times> error option) outcome" where
  "createIAMRole X st s tags =
     (let stackName = StackName (Config s);
          (h1, t1) = mergeTags (heap st) (Some tags) (PString (stackName @ ''-execution-role''));
          (c1, r1, err1) = RegisterResource X (ctx st) (req_execution_role stackName (stringmaps h1 t1));
          s1 = s\<lparr>ExecutionRole := r1\<rparr>
      in if err1 \<noteq> None then (\<lparr>ctx = c1, heap = h1\<rparr>, Return (s1, err1)) else
      case buildIAMPolicyStatements h1 s1 of
        Panic p \<Rightarrow> (\<lparr>ctx = c1, heap = h1\<rparr>, Panic p)
      | Return policyStatements \<Rightarrow>
      let (c2, policy, err2) = RegisterResource X c1 (req_execution_policy stackName policyStatements)
      in if err2 \<noteq> None then (\<lparr>ctx = c2, heap = h1\<rparr>, Return (s1, err2)) else
      let (c3, r3, err3) = RegisterResource X c2 req_execution_policy_attachment
      in if err3 \<noteq> None then (\<lparr>ctx = c3, heap = h1\<rparr>, Return (s1, err3)) else
      (\<lparr>ctx = c3, heap = h1\<rparr>, Return (s1, None)))"

subsection \<open>createLogGroup\<close>

definition req_log_group :: "string \<Rightarrow> int \<Rightarrow> pvalue gomap \<Rightarrow> request" where
  "req_log_group stackName retentionDays tags =
     \<lparr>rtype = ''cloudwatch.LogGroup'', rname = ''log-group'',
      args = [(''Name'', PString (''/aws/agentcore/'' @ stackName)),
              (''RetentionInDays'', PInt retentionDays),
              (''Tags'', PStringMap tags)],
      dependsOn = []\<rparr>"

definition createLogGroup ::
  "externals \<Rightarrow> state \<Rightarrow> AgentCoreStack \<Rightarrow> addr \<Rightarrow> state \<times> (AgentCoreStack \<times> error option) outcome" where
  "createLogGroup X st s tags =
     (let stackName = StackName (Config s) in
      case Observability (Config s) of
        None \<Rightarrow> (st, Panic NilDereference)
      | Some obs \<Rightarrow>
      let retentionDays = LogRetentionDays obs;
          retentionDays = (if retentionDays = 0 then 30 else retentionDays);
          (h1, t1) = mergeTags (heap st) (Some tags) (PString (stackName @ ''-logs''));
          (c1, r1, err1) = RegisterResource X (ctx st) (req_log_group stackName retentionDays (stringmaps h1 t1));
          s1 = s\<lparr>LogGroup := r1\<rparr>
      in if err1 \<noteq> None then (\<lparr>ctx = c1, heap = h1\<rparr>, Return (s1, err1)) else
      (\<lparr>ctx = c1, heap = h1\<rparr>, Return (s1, None)))"

subsection \<open>exportOutputs\<close>

text \<open>\<open>ctx.Export(name, v)\<close> and the assignment \<open>s.Outputs[name] = v\<close>.\<close>

definition Export :: "Context \<Rightarrow> string \<Rightarrow> pvalue \<Rightarrow> Context" where
  "Export c name v = c\<lparr>exports := exports c @ [(name, v)]\<rparr>"

definition exportOutputs :: "Context \<Rightarrow> AgentCoreStack \<Rightarrow> Context \<times> AgentCoreStack" where
  "exportOutputs c s =
     (let (c, s) = (case stack_VPC s of
                      Some v \<Rightarrow> (Export c ''vpcId'' (PID v),
                                 s\<lparr>Outputs := AList.update ''vpcId'' (PID v) (Outputs s)\<rparr>)
                    | None \<Rightarrow> (c, s));
          (c, s) = (case PrivateSubnet s of
                      Some v \<Rightarrow> (Export c ''privateSubnetId'' (PID v),
                                 s\<lparr>Outputs := AList.update ''privateSubnetId'' (PID v) (Outputs s)\<rparr>)
                    | None \<Rightarrow> (c, s));
          (c, s) = (case SecurityGroup s of
                      Some v \<Rightarrow> (Export c ''securityGroupId'' (PID v),
                                 s\<lparr>Outputs := AList.update ''securityGroupId'' (PID v) (Outputs s)\<rparr>)
                    | None \<Rightarrow> (c, s));
          (c, s) = (case ExecutionRole s of
                      Some v \<Rightarrow> (Export c ''executionRoleArn'' (PAttr v ''Arn''),
                                 s\<lparr>Outputs := AList.update ''executionRoleArn'' (PAttr v ''Arn'') (Outputs s)\<rparr>)
                    | None \<Rightarrow> (c, s));
          (c, s) = (case LogGroup s of
                      Some v \<Rightarrow> (Export c ''logGroupName'' (PAttr v ''Name''),
                                 s\<lparr>Outputs := AList.update ''logGroupName'' (PAttr v ''Name'') (Outputs s)\<rparr>)
                    | None \<Rightarrow> (c, s))
      in (Export c ''agentCount'' (PInt (int (length (Agents (Config s))))), s))"

subsection \<open>NewAgentCoreStack\<close>

text \<open>\<open>m[k] = v\<close> is not needed on \<open>map[string]string\<close> here; \<open>range config.Tags\<close> reads
  its entries (none for the nil map).\<close>

definition strmap_entries :: "heap \<Rightarrow> addr option \<Rightarrow> string gomap" where
  "strmap_entries h m = (case m of None \<Rightarrow> [] | Some a \<Rightarrow> strmaps h a)"

text \<open>The loop \<open>for k, v := range config.Tags { tags[k] = pulumi.String(v) }\<close>.\<close>

fun copy_config_tags :: "heap \<Rightarrow> addr \<Rightarrow> string gomap \<Rightarrow> heap" where
  "copy_config_tags h tags [] = h"
| "copy_config_tags h tags ((k, v) # es) = copy_config_tags (StringMap_set h tags k (PString v)) tags es"

definition new_stack :: "StackConfig \<Rightarrow> AgentCoreStack" where
  "new_stack cfg =
     \<lparr>Config = cfg, stack_VPC = None, PublicSubnet = None, PrivateSubnet = None,
      InternetGateway = None, NatGateway = None, SecurityGroup = None,
      ExecutionRole = None, LogGroup = None, Outputs = []\<rparr>"

text \<open>
  The result pair is Go's \<open>(*AgentCoreStack, error)\<close>. \<open>config\<close> is passed by value, so
  \<open>config.ApplyDefaults()\<close> changes the local copy (and whatever the heap transformer of
  the collaborator does). \<open>wrap_step\<close> is the repeated
  \<open>if err := ...; err != nil { return nil, fmt.Errorf("...: %w", err) }\<close>.
\<close>

definition NewAgentCoreStack ::
  "externals \<Rightarrow> state \<Rightarrow> StackConfig \<Rightarrow> state \<times> (AgentCoreStack option \<times> error option) outcome" where
  "NewAgentCoreStack X st config0 =
     (let (h0, config) = ApplyDefaults X (heap st) config0 in
      case Validate X h0 config of
        Some err \<Rightarrow> (st\<lparr>heap := h0\<rparr>, Return (None, Some (Errorf ''invalid stack configuration: '' err)))
      | None \<Rightarrow>
      let stack = new_stack config;
          (h1, tags) = new_StringMap h0;
          h2 = copy_config_tags h1 tags (strmap_entries h1 (Tags config));
          h3 = StringMap_set h2 tags ''ManagedBy'' (PString ''agentkit-pulumi'');
          st3 = st\<lparr>heap := h3\<rparr>
      in
      case VPC config of
        None \<Rightarrow> (st3, Panic NilDereference)
      | Some vpccfg \<Rightarrow>
      case (if CreateVPC vpccfg then createVPC X st3 stack tags else (st3, Return (stack, None))) of
        (st4, Panic p) \<Rightarrow> (st4, Panic p)
      | (st4, Return (stack, Some err)) \<Rightarrow> (st4, Return (None, Some (Errorf ''failed to create VPC: '' err)))
      | (st4, Return (stack, None)) \<Rightarrow>
      case createSecurityGroup X st4 stack tags of
        (st5, Panic p) \<Rightarrow> (st5, Panic p)
      | (st5, Return (stack, Some err)) \<Rightarrow> (st5, Return (None, Some (Errorf ''failed to create security group: '' err)))
      | (st5, Return (stack, None)) \<Rightarrow>
      case createIAMRole X st5 stack tags of
        (st6, Panic p) \<Rightarrow> (st6, Panic p)
      | (st6, Return (stack, Some err)) \<Rightarrow> (st6, Return (None, Some (Errorf ''failed to create IAM role: '' err)))
      | (st6, Return (stack, None)) \<Rightarrow>
      case Observability config of
        None \<Rightarrow> (st6, Panic NilDereference)
      | Some obs \<Rightarrow>
      case (if EnableCloudWatchLogs obs then createLogGroup X st6 stack tags else (st6, Return (stack, None))) of
        (st7, Panic p) \<Rightarrow> (st7, Panic p)
      | (st7, Return (stack, Some err)) \<Rightarrow> (st7, Return (None, Some (Errorf ''failed to create log group: '' err)))
      | (st7, Return (stack, None)) \<Rightarrow>
      let (c8, stack) = exportOutputs (ctx st7) stack
      in (st7\<lparr>ctx := c8\<rparr>, Return (Some stack, None)))"

subsection \<open>NewStackFromFile and MustNewStackFromFile\<close>

definition NewStackFromFile ::
  "externals \<Rightarrow> state \<Rightarrow> string \<Rightarrow> state \<times> (AgentCoreStack option \<times> error option) outcome" where
  "NewStackFromFile X st configPath =
     (let (h1, r) = LoadStackConfigFromFile X (heap st) configPath in
      case r of
        Inl err \<Rightarrow> (st\<lparr>heap := h1\<rparr>, Return (None, Some err))
      | Inr cfg \<Rightarrow> NewAgentCoreStack X (st\<lparr>heap := h1\<rparr>) cfg)"

text \<open>\<open>%v\<close> of an error is its message.\<close>

definition MustNewStackFromFile ::
  "externals \<Rightarrow> state \<Rightarrow> string \<Rightarrow> state \<times> AgentCoreStack option outcome" where
  "MustNewStackFromFile X st configPath =
     (case NewStackFromFile X st configPath of
        (st', Panic p) \<Rightarrow> (st', Panic p)
      | (st', Return (stack, Some err)) \<Rightarrow>
          (st', Panic (PanicString (''failed to create stack from '' @ configPath @ '': '' @ Error err)))
      | (st', Return (stack, None)) \<Rightarrow> (st', Return stack))"

section \<open>builder.go\<close>

subsection \<open>Allocation and the collaborators' constructors\<close>

text \<open>\<open>make(map[string]string)\<close> and a map literal: a new map object with the given entries.\<close>

definition new_strmap :: "heap \<Rightarrow> string gomap \<Rightarrow> heap \<times> addr" where
  "new_strmap h m =
     (h\<lparr>strmaps := (strmaps h)(next_addr h := m), next_addr := Suc (next_addr h)\<rparr>, next_addr h)"



definition new_StackBuilder :: "heap \<Rightarrow> StackBuilder \<Rightarrow> heap \<times> addr" where
  "new_StackBuilder h v =
     (h\<lparr>stackbuilders := (stackbuilders h)(next_addr h := v), next_addr := Suc (next_addr h)\<rparr>,
      next_addr h)"




subsection \<open>StackBuilder\<close>

text \<open>A method with receiver \<open>b *StackBuilder\<close> takes the heap and the address \<open>b\<close>;
  \<open>return b\<close> returns that address. \<open>set_config\<close> is an assignment to fields of
  \<open>b.config\<close>.\<close>

definition set_config :: "heap \<Rightarrow> addr \<Rightarrow> (StackConfig \<Rightarrow> StackConfig) \<Rightarrow> heap" where
  "set_config h b f =
     h\<lparr>stackbuilders := (stackbuilders h)(b := (stackbuilders h b)\<lparr>config := f (config (stackbuilders h b))\<rparr>)\<rparr>"

definition NewStackBuilder :: "heap \<Rightarrow> string \<Rightarrow> heap \<times> addr" where
  "NewStackBuilder h stackName =
     (let (h1, tags) = new_strmap h []
      in new_StackBuilder h1
           \<lparr>config = \<lparr>StackName = stackName, Description = [], Agents = [], VPC = None,
                       Secrets = None, Observability = None, IAM = None, Tags = Some tags,
                       RemovalPolicy = []\<rparr>\<rparr>)"







definition WithExistingVPC :: "heap \<Rightarrow> addr \<Rightarrow> string \<Rightarrow> string list \<Rightarrow> heap \<times> addr" where
  "WithExistingVPC h b vpcID subnetIDs =
     (set_config h b
        (\<lambda>c. c\<lparr>VPC := Some \<lparr>CreateVPC = False, VPCCidr = [], MaxAZs = 0,
                              EnableVPCEndpoints = False, VPCID = vpcID, SubnetIDs = subnetIDs\<rparr>\<rparr>),
      b)"

definition WithNewVPC :: "heap \<Rightarrow> addr \<Rightarrow> string \<Rightarrow> int \<Rightarrow> heap \<times> addr" where
  "WithNewVPC h b cidr maxAZs =
     (set_config h b
        (\<lambda>c. c\<lparr>VPC := Some \<lparr>CreateVPC = True, VPCCidr = cidr, MaxAZs = maxAZs,
                              EnableVPCEndpoints = True, VPCID = [], SubnetIDs = []\<rparr>\<rparr>),
      b)"

















text \<open>\<open>Validate\<close> applies the defaults to \<open>b.config\<close> in place and validates it.\<close>

definition StackBuilder_Validate :: "externals \<Rightarrow> heap \<Rightarrow> addr \<Rightarrow> heap \<times> error option" where
  "StackBuilder_Validate X h b =
     (let (h1, cfg) = ApplyDefaults X h (config (stackbuilders h b));
          h2 = set_config h1 b (\<lambda>c. cfg)
      in (h2, Validate X h2 cfg))"

definition Build ::
  "externals \<Rightarrow> state \<Rightarrow> addr \<Rightarrow> state \<times> (AgentCoreStack option \<times> error option) outcome" where
  "Build X st b = NewAgentCoreStack X st (config (stackbuilders (heap st) b))"

definition MustBuild :: "externals \<Rightarrow> state \<Rightarrow> addr \<Rightarrow> state \<times> AgentCoreStack option outcome" where
  "MustBuild X st b =
     (case Build X st b of
        (st', Panic p) \<Rightarrow> (st', Panic p)
      | (st', Return (stack, Some err)) \<Rightarrow> (st', Panic (PanicError err))
      | (st', Return (stack, None)) \<Rightarrow> (st', Return stack))"

subsection \<open>AgentBuilder\<close>











subsection \<open>Chained calls\<close>






section \<open>The design, as definitions\<close>

text \<open>The contents of the map \<open>mergeTags\<close> returns, as a function of the contents of its
  base map.\<close>

definition merged_tags :: "pvalue gomap \<Rightarrow> pvalue \<Rightarrow> pvalue gomap" where
  "merged_tags base name = AList.update ''Name'' name (fold (\<lambda>(k, v). AList.update k v) base [])"

text \<open>The contents of the base tag map of \<open>NewAgentCoreStack\<close>, as a function of the
  entries of \<open>config.Tags\<close>.\<close>

definition base_tags :: "string gomap \<Rightarrow> pvalue gomap" where
  "base_tags cfgtags =
     AList.update ''ManagedBy'' (PString ''agentkit-pulumi'')
       (fold (\<lambda>(k, v). AList.update k (PString v)) cfgtags [])"

text \<open>The heap after \<open>mergeTags\<close> of the map at address \<open>a\<close>.\<close>

definition alloc_tags :: "heap \<Rightarrow> addr \<Rightarrow> pvalue \<Rightarrow> heap" where
  "alloc_tags h a name = fst (mergeTags h (Some a) name)"

text \<open>What a callee may do to the heap while the caller holds the tag map \<open>tags\<close>: allocate.\<close>

definition heap_frame :: "addr \<Rightarrow> heap \<Rightarrow> heap \<Rightarrow> bool" where
  "heap_frame tags h h' \<longleftrightarrow>
     stringmaps h' tags = stringmaps h tags \<and> next_addr h \<le> next_addr h' \<and>
     strmaps h' = strmaps h \<and> iamcfgs h' = iamcfgs h \<and>
     stackbuilders h' = stackbuilders h \<and> agentbuilders h' = agentbuilders h"

text \<open>
  The sequence the design describes: the registrations of a plan are issued in order,
  and the first one the engine rejects ends the sequence with the engine's error.
\<close>

fun issue_all :: "externals \<Rightarrow> Context \<Rightarrow> request list \<Rightarrow> Context \<times> error option" where
  "issue_all X c [] = (c, None)"
| "issue_all X c (r # rs) =
     (case RegisterResource X c r of
        (c', _, Some e) \<Rightarrow> (c', Some e)
      | (c', _, None) \<Rightarrow> issue_all X c' rs)"

text \<open>A translation is a list of phases, one per resource kind; the error of a failed
  phase is wrapped with the phase's message.\<close>

fun issue_phases :: "externals \<Rightarrow> Context \<Rightarrow> (string \<times> request list) list \<Rightarrow> Context \<times> error option" where
  "issue_phases X c [] = (c, None)"
| "issue_phases X c ((msg, rs) # ps) =
     (case issue_all X c rs of
        (c', Some e) \<Rightarrow> (c', Some (Errorf msg e))
      | (c', None) \<Rightarrow> issue_phases X c' ps)"

definition vpc_plan :: "string \<Rightarrow> string \<Rightarrow> pvalue gomap \<Rightarrow> request list" where
  "vpc_plan stackName cidr base =
     [req_vpc cidr (merged_tags base (PString (stackName @ ''-vpc''))),
      req_igw (merged_tags base (PString (stackName @ ''-igw''))),
      req_public_subnet (merged_tags base (PString (stackName @ ''-public''))),
      req_private_subnet (merged_tags base (PString (stackName @ ''-private''))),
      req_nat_eip (merged_tags base (PString (stackName @ ''-nat-eip''))),
      req_nat (merged_tags base (PString (stackName @ ''-nat''))),
      req_public_rt (merged_tags base (PString (stackName @ ''-public-rt''))),
      req_public_rta,
      req_private_rt (merged_tags base (PString (stackName @ ''-private-rt''))),
      req_private_rta]"

definition sg_plan :: "string \<Rightarrow> pvalue \<Rightarrow> pvalue gomap \<Rightarrow> request list" where
  "sg_plan stackName vpcId base =
     [req_sg stackName vpcId (merged_tags base (PString (stackName @ ''-sg''))),
      req_sg_self_ingress]"

definition iam_plan :: "string \<Rightarrow> IAMConfig \<Rightarrow> AgentConfig list \<Rightarrow> pvalue gomap \<Rightarrow> request list" where
  "iam_plan stackName iam agents base =
     [req_execution_role stackName (merged_tags base (PString (stackName @ ''-execution-role''))),
      req_execution_policy stackName
        (policy_document (join_statements 0 (policy_statements iam agents) [])),
      req_execution_policy_attachment]"

definition log_plan :: "string \<Rightarrow> ObservabilityConfig \<Rightarrow> pvalue gomap \<Rightarrow> request list" where
  "log_plan stackName obs base =
     [req_log_group stackName (if LogRetentionDays obs = 0 then 30 else LogRetentionDays obs)
        (merged_tags base (PString (stackName @ ''-logs'')))]"

definition stack_phases ::
  "string \<Rightarrow> VPCConfig \<Rightarrow> IAMConfig \<Rightarrow> ObservabilityConfig \<Rightarrow> AgentConfig list \<Rightarrow> pvalue gomap \<Rightarrow>
   (string \<times> request list) list" where
  "stack_phases stackName vpc iam obs agents base =
     [(''failed to create VPC: '',
         if CreateVPC vpc then vpc_plan stackName (VPCCidr vpc) base else []),
      (''failed to create security group: '',
         sg_plan stackName
           (if CreateVPC vpc then PID ''vpc''
            else if VPCID vpc \<noteq> [] then PString (VPCID vpc) else PUnset) base),
      (''failed to create IAM role: '', iam_plan stackName iam agents base),
      (''failed to create log group: '',
         if EnableCloudWatchLogs obs then log_plan stackName obs base else [])]"

text \<open>The stack a successful translation holds before its outputs are exported.\<close>

definition translated_stack :: "StackConfig \<Rightarrow> VPCConfig \<Rightarrow> ObservabilityConfig \<Rightarrow> AgentCoreStack" where
  "translated_stack cfg vpc obs =
     \<lparr>Config = cfg,
      stack_VPC = (if CreateVPC vpc then Some ''vpc'' else None),
      PublicSubnet = (if CreateVPC vpc then Some ''public-subnet'' else None),
      PrivateSubnet = (if CreateVPC vpc then Some ''private-subnet'' else None),
      InternetGateway = (if CreateVPC vpc then Some ''igw'' else None),
      NatGateway = (if CreateVPC vpc then Some ''nat'' else None),
      SecurityGroup = Some ''sg'',
      ExecutionRole = Some ''execution-role'',
      LogGroup = (if EnableCloudWatchLogs obs then Some ''log-group'' else None),
      Outputs = []\<rparr>"

text \<open>The message of the phase that holds the \<open>i\<close>-th registration of the concatenated
  phases.\<close>

fun phase_message :: "(string \<times> request list) list \<Rightarrow> nat \<Rightarrow> string" where
  "phase_message [] i = []"
| "phase_message ((msg, rs) # ps) i =
     (if i < length rs then msg else phase_message ps (i - length rs))"

text \<open>\<open>issued_prefix X c plan c' err n\<close>: from the context \<open>c\<close>, exactly the first \<open>n\<close>
  registrations of \<open>plan\<close> were issued, giving \<open>c'\<close>; every one but a rejected last one
  was accepted; \<open>err\<close> is the engine's error for a rejected last one, and without an
  error the whole plan was issued.\<close>

definition issued_prefix ::
  "externals \<Rightarrow> Context \<Rightarrow> request list \<Rightarrow> Context \<Rightarrow> error option \<Rightarrow> nat \<Rightarrow> bool" where
  "issued_prefix X c plan c' err n \<longleftrightarrow>
     n \<le> length plan \<and>
     requests c' = requests c @ take n plan \<and>
     exports c' = exports c \<and>
     (\<forall>i. Suc i < n \<longrightarrow> engine X (requests c @ take i plan) (plan ! i) = None) \<and>
     (case err of
        None \<Rightarrow> n = length plan \<and>
                 (\<forall>i < n. engine X (requests c @ take i plan) (plan ! i) = None)
      | Some e \<Rightarrow> 0 < n \<and> engine X (requests c @ take (n - 1) plan) (plan ! (n - 1)) = Some e)"

text \<open>The error a sequence of phases returns wraps the engine's error with the message of
  the phase whose registration was rejected.\<close>

definition phases_outcome ::
  "externals \<Rightarrow> Context \<Rightarrow> (string \<times> request list) list \<Rightarrow> Context \<Rightarrow> error option \<Rightarrow> nat \<Rightarrow> bool" where
  "phases_outcome X c ps c' err n \<longleftrightarrow>
     issued_prefix X c (concat (map snd ps)) c' (case err of None \<Rightarrow> None | Some e \<Rightarrow> Unwrap e) n \<and>
     (case err of
        None \<Rightarrow> True
      | Some e \<Rightarrow> (case Unwrap e of
                     None \<Rightarrow> False
                   | Some e0 \<Rightarrow> e = Errorf (phase_message ps (n - 1)) e0))"

text \<open>
  The translation of a configuration whose sections are present, as the design describes
  it: the phases are issued; if none fails, the outputs of the translated stack are
  exported and the stack is returned; if one fails, no stack is returned.
\<close>

definition translation ::
  "externals \<Rightarrow> Context \<Rightarrow> StackConfig \<Rightarrow> VPCConfig \<Rightarrow> IAMConfig \<Rightarrow> ObservabilityConfig \<Rightarrow>
   pvalue gomap \<Rightarrow> Context \<times> AgentCoreStack option \<times> error option" where
  "translation X c cfg vpc iam obs base =
     (case issue_phases X c (stack_phases (StackName cfg) vpc iam obs (Agents cfg) base) of
        (c', Some e) \<Rightarrow> (c', None, Some e)
      | (c', None) \<Rightarrow>
          (case exportOutputs c' (translated_stack cfg vpc obs) of
             (c'', stack) \<Rightarrow> (c'', Some stack, None)))"

text \<open>The registrations a call added to the context.\<close>

definition issued_since :: "Context \<Rightarrow> Context \<Rightarrow> request list" where
  "issued_since c c' = drop (length (requests c)) (requests c')"

text \<open>The tag map a registration carries, if it carries one.\<close>

definition tags_of :: "request \<Rightarrow> pvalue gomap option" where
  "tags_of r = (case map_of (args r) ''Tags'' of Some (PStringMap m) \<Rightarrow> Some m | _ \<Rightarrow> None)"

subsection \<open>Example inputs\<close>

text \<open>
  Concrete collaborators and configurations, for evaluating the model. The example
  collaborators leave a configuration as it is, reject an empty stack name, find no file,
  and accept every registration.
\<close>

definition research_agent :: AgentConfig where
  "research_agent =
     \<lparr>Name = ''research'', ContainerImage = ''ghcr.io/example/research:latest'',
      AgentDescription = [], MemoryMB = 512, TimeoutSeconds = 30, Environment = None,
      SecretsARNs = [], IsDefault = False\<rparr>"

definition example_config :: StackConfig where
  "example_config =
     \<lparr>StackName = ''my-agents'', Description = ''My AgentCore deployment'',
      Agents = [research_agent],
      VPC = Some \<lparr>CreateVPC = True, VPCCidr = ''10.0.0.0/16'', MaxAZs = 2,
                  EnableVPCEndpoints = True, VPCID = [], SubnetIDs = []\<rparr>,
      Secrets = None,
      Observability = Some \<lparr>Provider = ''cloudwatch'', Project = [], APIKeySecretARN = [],
                            EnableCloudWatchLogs = True, LogRetentionDays = 0\<rparr>,
      IAM = Some 1, Tags = Some 0, RemovalPolicy = []\<rparr>"

definition existing_vpc_config :: StackConfig where
  "existing_vpc_config =
     example_config
       \<lparr>VPC := Some \<lparr>CreateVPC = False, VPCCidr = [], MaxAZs = 0, EnableVPCEndpoints = False,
                      VPCID = ''vpc-0abc'', SubnetIDs = [''subnet-1'']\<rparr>,
        Observability := Some \<lparr>Provider = ''none'', Project = [], APIKeySecretARN = [],
                                EnableCloudWatchLogs = False, LogRetentionDays = 0\<rparr>\<rparr>"

definition example_heap :: heap where
  "example_heap =
     \<lparr>strmaps = (\<lambda>a. [])(0 := [(''Environment'', ''production''), (''Name'', ''mine'')]),
      stringmaps = (\<lambda>a. []),
      iamcfgs = (\<lambda>a. \<lparr>RoleARN = [], EnableBedrockAccess = False, BedrockModelIDs = []\<rparr>)
                  (1 := \<lparr>RoleARN = [], EnableBedrockAccess = True,
                         BedrockModelIDs = [''model-a'', ''model-b'']\<rparr>),
      stackbuilders = (\<lambda>a. \<lparr>config = example_config\<rparr>),
      agentbuilders = (\<lambda>a. \<lparr>agent_config = research_agent\<rparr>),
      next_addr = 2\<rparr>"

definition example_state :: state where
  "example_state = \<lparr>ctx = \<lparr>requests = [], exports = []\<rparr>, heap = example_heap\<rparr>"

definition example_externals :: externals where
  "example_externals =
     \<lparr>ApplyDefaults = (\<lambda>h c. (h, c)),
      Validate = (\<lambda>h c. if StackName c = [] then Some (ExternalError ''stack name is required'') else None),
      LoadStackConfigFromFile = (\<lambda>h path. (h, Inl (ExternalError ''no such file''))),
      default_agent = (\<lambda>name image. research_agent\<lparr>Name := name, ContainerImage := image\<rparr>),
      default_agent_env = (\<lambda>name image. Some []),
      default_iam = \<lparr>RoleARN = [], EnableBedrockAccess = True, BedrockModelIDs = []\<rparr>,
      engine = (\<lambda>log r. None)\<rparr>"

text \<open>The same collaborators with an engine that rejects every \<open>iam.Role\<close>.\<close>

definition denying_externals :: externals where
  "denying_externals =
     example_externals
       \<lparr>engine := (\<lambda>log r. if rtype r = ''iam.Role'' then Some (ExternalError ''AccessDenied'') else None)\<rparr>"

subsection \<open>Observations on a run\<close>

text \<open>A call of \<open>NewAgentCoreStack\<close> succeeded: it returned a stack and no error.\<close>

definition succeeded :: "state \<times> (AgentCoreStack option \<times> error option) outcome \<Rightarrow> bool" where
  "succeeded r = (case snd r of Return (Some stack, None) \<Rightarrow> True | _ \<Rightarrow> False)"

text \<open>The names exported to the context a call left, in the order of the calls.\<close>

definition exported_names :: "state \<times> 'a \<Rightarrow> string list" where
  "exported_names r = map fst (exports (ctx (fst r)))"

text \<open>The registrations a call issued from \<open>example_state\<close>.\<close>

definition issued_by :: "state \<times> 'a \<Rightarrow> request list" where
  "issued_by r = issued_since (ctx example_state) (ctx (fst r))"

text \<open>The value of a tag on a registration.\<close>

definition tag_of :: "request \<Rightarrow> string \<Rightarrow> pvalue option" where
  "tag_of r k = (case tags_of r of None \<Rightarrow> None | Some m \<Rightarrow> map_of m k)"

text \<open>The constructors of the network resources, and the constructors called without a
  \<open>Tags\<close> argument.\<close>

definition network_rtypes :: "string list" where
  "network_rtypes =
     [''ec2.Vpc'', ''ec2.InternetGateway'', ''ec2.Subnet'', ''ec2.Eip'', ''ec2.NatGateway'',
      ''ec2.RouteTable'', ''ec2.RouteTableAssociation'']"

definition untagged_rtypes :: "string list" where
  "untagged_rtypes =
     [''ec2.RouteTableAssociation'', ''ec2.SecurityGroupRule'', ''iam.Policy'',
      ''iam.RolePolicyAttachment'']"



subsection \<open>The Must wrappers\<close>

text \<open>
  The defaulted configuration, when it is valid, has its \<open>VPC\<close>, \<open>IAM\<close> and
  \<open>Observability\<close> sections: what the design asks of \<open>ApplyDefaults\<close>.
\<close>

definition sections_present :: "externals \<Rightarrow> heap \<Rightarrow> StackConfig \<Rightarrow> bool" where
  "sections_present X h c0 \<longleftrightarrow>
     (case ApplyDefaults X h c0 of
        (h0, cfg) \<Rightarrow>
          Validate X h0 cfg = None \<longrightarrow>
            VPC cfg \<noteq> None \<and> IAM cfg \<noteq> None \<and> Observability cfg \<noteq> None)"

text \<open>The example state after \<open>NewStackBuilder("")\<close>, which returns the builder at
  address 3.\<close>

definition unnamed_state :: state where
  "unnamed_state = example_state\<lparr>heap := fst (NewStackBuilder example_heap [])\<rparr>"

subsection \<open>Builders: what a call accumulates\<close>















section \<open>Properties\<close>

subsection \<open>Tag maps in the heap\<close>

lemma stringmaps_cong: "f = g \<Longrightarrow> h\<lparr>stringmaps := f\<rparr> = h\<lparr>stringmaps := g\<rparr>"
  by simp

lemma copy_entries_eq:
  "copy_entries h r es =
     h\<lparr>stringmaps := (stringmaps h)(r := fold (\<lambda>(k, v). AList.update k v) es (stringmaps h r))\<rparr>"
proof (induction h r es rule: copy_entries.induct)
  case (1 h result)
  then show ?case by simp
next
  case (2 h result k v es)
  show ?case unfolding copy_entries.simps 2
    apply (simp add: StringMap_set_def)
    apply (rule stringmaps_cong)
    apply (rule ext)
    apply simp
    done
qed

lemma copy_config_tags_eq:
  "copy_config_tags h r es =
     h\<lparr>stringmaps := (stringmaps h)(r := fold (\<lambda>(k, v). AList.update k (PString v)) es (stringmaps h r))\<rparr>"
proof (induction h r es rule: copy_config_tags.induct)
  case (1 h tags)
  then show ?case by simp
next
  case (2 h tags k v es)
  show ?case unfolding copy_config_tags.simps 2
    apply (simp add: StringMap_set_def)
    apply (rule stringmaps_cong)
    apply (rule ext)
    apply simp
    done
qed

lemma fold_update_prefix:
  "distinct (map fst (acc @ es)) \<Longrightarrow> fold (\<lambda>(k, v). AList.update k v) es acc = acc @ es"
proof (induction es arbitrary: acc)
  case Nil
  then show ?case by simp
next
  case (Cons e es)
  obtain k v where e: "e = (k, v)" by (cases e)
  from Cons.prems e have notin: "k \<notin> fst ` set acc" by auto
  have upd: "AList.update k v acc = acc @ [(k, v)]"
    using notin by (induction acc) auto
  from Cons.prems e have "distinct (map fst ((acc @ [(k, v)]) @ es))" by simp
  from Cons.IH [OF this] show ?case by (simp add: e upd)
qed

lemma fold_update_distinct:
  "distinct (map fst es) \<Longrightarrow> fold (\<lambda>(k, v). AList.update k v) es [] = es"
  using fold_update_prefix [of "[]" es] by simp

lemma fold_update_map:
  "fold (\<lambda>(k, v). AList.update k (f v)) es acc =
     fold (\<lambda>(k, v). AList.update k v) (map (\<lambda>(k, v). (k, f v)) es) acc"
  by (induction es arbitrary: acc) (simp_all add: case_prod_beta)

lemma fold_update_map_distinct:
  "distinct (map fst es) \<Longrightarrow>
   fold (\<lambda>(k, v). AList.update k (f v)) es [] = map (\<lambda>(k, v). (k, f v)) es"
proof -
  assume d: "distinct (map fst es)"
  have "map fst (map (\<lambda>(k, v). (k, f v)) es) = map fst es"
    by (induction es) auto
  with d have "distinct (map fst (map (\<lambda>(k, v). (k, f v)) es))" by (simp only:)
  then show ?thesis by (subst fold_update_map) (simp add: fold_update_distinct)
qed

lemma distinct_fold_update:
  "distinct (map fst acc) \<Longrightarrow> distinct (map fst (fold (\<lambda>(k, v). AList.update k (f v)) es acc))"
  by (induction es arbitrary: acc) (auto simp: distinct_update)

lemma map_of_merged_tags:
  "distinct (map fst base) \<Longrightarrow> map_of (merged_tags base name) = (map_of base)(''Name'' \<mapsto> name)"
  by (simp add: merged_tags_def fold_update_distinct update_conv')

lemma distinct_base_tags: "distinct (map fst (base_tags cfgtags))"
  by (simp add: base_tags_def distinct_update distinct_fold_update)

lemma map_of_base_tags:
  "distinct (map fst cfgtags) \<Longrightarrow>
   map_of (base_tags cfgtags) =
     (map_option PString \<circ> map_of cfgtags)(''ManagedBy'' \<mapsto> PString ''agentkit-pulumi'')"
  by (simp add: base_tags_def update_conv' fold_update_map_distinct map_of_map)

lemma mergeTags_eq:
  "mergeTags h base name =
     (h\<lparr>stringmaps := (stringmaps h)(next_addr h :=
           merged_tags (if base = Some (next_addr h) then [] else StringMap_entries h base) name),
        next_addr := Suc (next_addr h)\<rparr>,
      next_addr h)"
  by (simp add: mergeTags_def new_StringMap_def copy_entries_eq StringMap_set_def merged_tags_def
      StringMap_entries_def split: option.splits)

lemma mergeTags_alloc: "mergeTags h (Some a) name = (alloc_tags h a name, next_addr h)"
  by (simp add: alloc_tags_def mergeTags_eq)

lemma alloc_tags_simps:
  "next_addr (alloc_tags h b name) = Suc (next_addr h)"
  "strmaps (alloc_tags h b name) = strmaps h"
  "iamcfgs (alloc_tags h b name) = iamcfgs h"
  "stackbuilders (alloc_tags h b name) = stackbuilders h"
  "agentbuilders (alloc_tags h b name) = agentbuilders h"
  "a < next_addr h \<Longrightarrow> stringmaps (alloc_tags h b name) a = stringmaps h a"
  "a < next_addr h \<Longrightarrow> k = next_addr h \<Longrightarrow>
     stringmaps (alloc_tags h a name) k = merged_tags (stringmaps h a) name"
  "a < next_addr h \<Longrightarrow> a < next_addr (alloc_tags h b name)"
  "next_addr h \<le> n \<Longrightarrow> next_addr h \<le> Suc n"
  by (simp_all add: alloc_tags_def mergeTags_eq StringMap_entries_def)

subsection \<open>The fixed sequence of registrations\<close>

lemma rname_req [simp]:
  "rname (req_vpc cidr t) = ''vpc''"
  "rname (req_igw t) = ''igw''"
  "rname (req_public_subnet t) = ''public-subnet''"
  "rname (req_private_subnet t) = ''private-subnet''"
  "rname (req_nat_eip t) = ''nat-eip''"
  "rname (req_nat t) = ''nat''"
  "rname (req_public_rt t) = ''public-rt''"
  "rname req_public_rta = ''public-rta''"
  "rname (req_private_rt t) = ''private-rt''"
  "rname req_private_rta = ''private-rta''"
  "rname (req_sg n v t) = ''sg''"
  "rname req_sg_self_ingress = ''sg-self-ingress''"
  "rname (req_execution_role n t) = ''execution-role''"
  "rname (req_execution_policy n pol) = ''execution-policy''"
  "rname req_execution_policy_attachment = ''execution-policy-attachment''"
  "rname (req_log_group n d t) = ''log-group''"
  by (simp_all add: req_vpc_def req_igw_def req_public_subnet_def req_private_subnet_def req_nat_eip_def
      req_nat_def req_public_rt_def req_public_rta_def req_private_rt_def req_private_rta_def
      req_sg_def req_sg_self_ingress_def req_execution_role_def req_execution_policy_def
      req_execution_policy_attachment_def req_log_group_def)

lemma RegisterResource_if:
  "RegisterResource X c r =
     (c\<lparr>requests := requests c @ [r]\<rparr>,
      if engine X (requests c) r = None then Some (rname r) else None,
      engine X (requests c) r)"
  by (simp add: RegisterResource_def split: option.splits)

lemma issue_all_Cons_if:
  "issue_all X c (r # rs) =
     (if engine X (requests c) r = None then issue_all X (c\<lparr>requests := requests c @ [r]\<rparr>) rs
      else (c\<lparr>requests := requests c @ [r]\<rparr>, engine X (requests c) r))"
  by (auto simp add: RegisterResource_def split: option.splits)

lemma issue_phases_Cons:
  "issue_phases X c ((msg, rs) # ps) =
     (case snd (issue_all X c rs) of
        Some e \<Rightarrow> (fst (issue_all X c rs), Some (Errorf msg e))
      | None \<Rightarrow> issue_phases X (fst (issue_all X c rs)) ps)"
  by (simp split: prod.splits option.splits)

subsection \<open>Each create function issues its plan\<close>

lemma createVPC_plan:
  assumes "VPC (Config s) = Some v" and "tags < next_addr (heap st)"
  shows "\<exists>st' s'.
           createVPC X st s tags = (st', Return (s', snd (issue_all X (ctx st) (vpc_plan (StackName (Config s)) (VPCCidr v) (stringmaps (heap st) tags))))) \<and>
           ctx st' = fst (issue_all X (ctx st) (vpc_plan (StackName (Config s)) (VPCCidr v) (stringmaps (heap st) tags))) \<and>
           heap_frame tags (heap st) (heap st') \<and>
           (snd (issue_all X (ctx st) (vpc_plan (StackName (Config s)) (VPCCidr v) (stringmaps (heap st) tags))) = None \<longrightarrow> s' = s\<lparr>stack_VPC := Some ''vpc'', InternetGateway := Some ''igw'',
                  PublicSubnet := Some ''public-subnet'', PrivateSubnet := Some ''private-subnet'',
                  NatGateway := Some ''nat''\<rparr>)"
proof -
  let ?B = "stringmaps (heap st) tags"
  let ?N = "StackName (Config s)"
  let ?L = "requests (ctx st)"
  let ?r1 = "req_vpc (VPCCidr v) (merged_tags ?B (PString (?N @ ''-vpc'')))"
  let ?r2 = "req_igw (merged_tags ?B (PString (?N @ ''-igw'')))"
  let ?r3 = "req_public_subnet (merged_tags ?B (PString (?N @ ''-public'')))"
  let ?r4 = "req_private_subnet (merged_tags ?B (PString (?N @ ''-private'')))"
  let ?r5 = "req_nat_eip (merged_tags ?B (PString (?N @ ''-nat-eip'')))"
  let ?r6 = "req_nat (merged_tags ?B (PString (?N @ ''-nat'')))"
  let ?r7 = "req_public_rt (merged_tags ?B (PString (?N @ ''-public-rt'')))"
  let ?r8 = "req_public_rta"
  let ?r9 = "req_private_rt (merged_tags ?B (PString (?N @ ''-private-rt'')))"
  let ?r10 = "req_private_rta"
  note defs = createVPC_def vpc_plan_def mergeTags_alloc alloc_tags_simps RegisterResource_if
      issue_all_Cons_if Let_def heap_frame_def
  show ?thesis
  proof (cases "engine X ?L ?r1")
    case (Some e)
    with assms  show ?thesis
      by (simp add: defs del: issue_all.simps(2) split del: if_split)
  next
    case e1: None
    show ?thesis
    proof (cases "engine X (?L @ [?r1]) ?r2")
      case (Some e)
      with assms e1 show ?thesis
        by (simp add: defs del: issue_all.simps(2) split del: if_split)
    next
      case e2: None
      show ?thesis
      proof (cases "engine X (?L @ [?r1, ?r2]) ?r3")
        case (Some e)
        with assms e1 e2 show ?thesis
          by (simp add: defs del: issue_all.simps(2) split del: if_split)
      next
        case e3: None
        show ?thesis
        proof (cases "engine X (?L @ [?r1, ?r2, ?r3]) ?r4")
          case (Some e)
          with assms e1 e2 e3 show ?thesis
            by (simp add: defs del: issue_all.simps(2) split del: if_split)
        next
          case e4: None
          show ?thesis
          proof (cases "engine X (?L @ [?r1, ?r2, ?r3, ?r4]) ?r5")
            case (Some e)
            with assms e1 e2 e3 e4 show ?thesis
              by (simp add: defs del: issue_all.simps(2) split del: if_split)
          next
            case e5: None
            show ?thesis
            proof (cases "engine X (?L @ [?r1, ?r2, ?r3, ?r4, ?r5]) ?r6")
              case (Some e)
              with assms e1 e2 e3 e4 e5 show ?thesis
                by (simp add: defs del: issue_all.simps(2) split del: if_split)
            next
              case e6: None
              show ?thesis
              proof (cases "engine X (?L @ [?r1, ?r2, ?r3, ?r4, ?r5, ?r6]) ?r7")
                case (Some e)
                with assms e1 e2 e3 e4 e5 e6 show ?thesis
                  by (simp add: defs del: issue_all.simps(2) split del: if_split)
              next
                case e7: None
                show ?thesis
                proof (cases "engine X (?L @ [?r1, ?r2, ?r3, ?r4, ?r5, ?r6, ?r7]) ?r8")
                  case (Some e)
                  with assms e1 e2 e3 e4 e5 e6 e7 show ?thesis
                    by (simp add: defs del: issue_all.simps(2) split del: if_split)
                next
                  case e8: None
                  show ?thesis
                  proof (cases "engine X (?L @ [?r1, ?r2, ?r3, ?r4, ?r5, ?r6, ?r7, ?r8]) ?r9")
                    case (Some e)
                    with assms e1 e2 e3 e4 e5 e6 e7 e8 show ?thesis
                      by (simp add: defs del: issue_all.simps(2) split del: if_split)
                  next
                    case e9: None
                    show ?thesis
                    proof (cases "engine X (?L @ [?r1, ?r2, ?r3, ?r4, ?r5, ?r6, ?r7, ?r8, ?r9]) ?r10")
                      case (Some e)
                      with assms e1 e2 e3 e4 e5 e6 e7 e8 e9 show ?thesis
                        by (simp add: defs del: issue_all.simps(2) split del: if_split)
                    next
                      case e10: None
                      from assms e1 e2 e3 e4 e5 e6 e7 e8 e9 e10 show ?thesis
                        by (simp add: defs del: issue_all.simps(2) split del: if_split)
                    qed
                  qed
                qed
              qed
            qed
          qed
        qed
      qed
    qed
  qed
qed

lemma createSecurityGroup_plan:
  assumes "sg_vpcId s = Return vpcId" and "tags < next_addr (heap st)"
  shows "\<exists>st' s'.
           createSecurityGroup X st s tags = (st', Return (s', snd (issue_all X (ctx st) (sg_plan (StackName (Config s)) vpcId (stringmaps (heap st) tags))))) \<and>
           ctx st' = fst (issue_all X (ctx st) (sg_plan (StackName (Config s)) vpcId (stringmaps (heap st) tags))) \<and>
           heap_frame tags (heap st) (heap st') \<and>
           (snd (issue_all X (ctx st) (sg_plan (StackName (Config s)) vpcId (stringmaps (heap st) tags))) = None \<longrightarrow> s' = s\<lparr>SecurityGroup := Some ''sg''\<rparr>)"
proof -
  let ?B = "stringmaps (heap st) tags"
  let ?N = "StackName (Config s)"
  let ?L = "requests (ctx st)"
  let ?r1 = "req_sg ?N vpcId (merged_tags ?B (PString (?N @ ''-sg'')))"
  let ?r2 = "req_sg_self_ingress"
  note defs = createSecurityGroup_def sg_plan_def mergeTags_alloc alloc_tags_simps RegisterResource_if
      issue_all_Cons_if Let_def heap_frame_def
  show ?thesis
  proof (cases "engine X ?L ?r1")
    case (Some e)
    with assms  show ?thesis
      by (simp add: defs del: issue_all.simps(2) split del: if_split)
  next
    case e1: None
    show ?thesis
    proof (cases "engine X (?L @ [?r1]) ?r2")
      case (Some e)
      with assms e1 show ?thesis
        by (simp add: defs del: issue_all.simps(2) split del: if_split)
    next
      case e2: None
      from assms e1 e2 show ?thesis
        by (simp add: defs del: issue_all.simps(2) split del: if_split)
    qed
  qed
qed

lemma createIAMRole_plan:
  assumes "IAM (Config s) = Some p" and "tags < next_addr (heap st)"
  shows "\<exists>st' s'.
           createIAMRole X st s tags = (st', Return (s', snd (issue_all X (ctx st) (iam_plan (StackName (Config s)) (iamcfgs (heap st) p) (Agents (Config s)) (stringmaps (heap st) tags))))) \<and>
           ctx st' = fst (issue_all X (ctx st) (iam_plan (StackName (Config s)) (iamcfgs (heap st) p) (Agents (Config s)) (stringmaps (heap st) tags))) \<and>
           heap_frame tags (heap st) (heap st') \<and>
           (snd (issue_all X (ctx st) (iam_plan (StackName (Config s)) (iamcfgs (heap st) p) (Agents (Config s)) (stringmaps (heap st) tags))) = None \<longrightarrow> s' = s\<lparr>ExecutionRole := Some ''execution-role''\<rparr>)"
proof -
  let ?B = "stringmaps (heap st) tags"
  let ?N = "StackName (Config s)"
  let ?L = "requests (ctx st)"
  let ?r1 = "req_execution_role ?N (merged_tags ?B (PString (?N @ ''-execution-role'')))"
  let ?r2 = "req_execution_policy ?N (policy_document (join_statements 0 (policy_statements (iamcfgs (heap st) p) (Agents (Config s))) []))"
  let ?r3 = "req_execution_policy_attachment"
  note defs = createIAMRole_def buildIAMPolicyStatements_def iam_plan_def mergeTags_alloc alloc_tags_simps RegisterResource_if
      issue_all_Cons_if Let_def heap_frame_def
  show ?thesis
  proof (cases "engine X ?L ?r1")
    case (Some e)
    with assms  show ?thesis
      by (simp add: defs del: issue_all.simps(2) split del: if_split)
  next
    case e1: None
    show ?thesis
    proof (cases "engine X (?L @ [?r1]) ?r2")
      case (Some e)
      with assms e1 show ?thesis
        by (simp add: defs del: issue_all.simps(2) split del: if_split)
    next
      case e2: None
      show ?thesis
      proof (cases "engine X (?L @ [?r1, ?r2]) ?r3")
        case (Some e)
        with assms e1 e2 show ?thesis
          by (simp add: defs del: issue_all.simps(2) split del: if_split)
      next
        case e3: None
        from assms e1 e2 e3 show ?thesis
          by (simp add: defs del: issue_all.simps(2) split del: if_split)
      qed
    qed
  qed
qed

lemma createLogGroup_plan:
  assumes "Observability (Config s) = Some obs" and "tags < next_addr (heap st)"
  shows "\<exists>st' s'.
           createLogGroup X st s tags = (st', Return (s', snd (issue_all X (ctx st) (log_plan (StackName (Config s)) obs (stringmaps (heap st) tags))))) \<and>
           ctx st' = fst (issue_all X (ctx st) (log_plan (StackName (Config s)) obs (stringmaps (heap st) tags))) \<and>
           heap_frame tags (heap st) (heap st') \<and>
           (snd (issue_all X (ctx st) (log_plan (StackName (Config s)) obs (stringmaps (heap st) tags))) = None \<longrightarrow> s' = s\<lparr>LogGroup := Some ''log-group''\<rparr>)"
proof -
  let ?B = "stringmaps (heap st) tags"
  let ?N = "StackName (Config s)"
  let ?L = "requests (ctx st)"
  let ?r1 = "req_log_group ?N (if LogRetentionDays obs = 0 then 30 else LogRetentionDays obs) (merged_tags ?B (PString (?N @ ''-logs'')))"
  note defs = createLogGroup_def log_plan_def mergeTags_alloc alloc_tags_simps RegisterResource_if
      issue_all_Cons_if Let_def heap_frame_def
  show ?thesis
  proof (cases "engine X ?L ?r1")
    case (Some e)
    with assms  show ?thesis
      by (simp add: defs del: issue_all.simps(2) split del: if_split)
  next
    case e1: None
    from assms e1 show ?thesis
      by (simp add: defs del: issue_all.simps(2) split del: if_split)
  qed
qed

subsection \<open>NewAgentCoreStack issues the phases of the configuration\<close>

lemma heap_frame_refl: "heap_frame tags h h"
  by (simp add: heap_frame_def)

lemma heap_frame_trans: "heap_frame tags h h' \<Longrightarrow> heap_frame tags h' h'' \<Longrightarrow> heap_frame tags h h''"
  by (simp add: heap_frame_def)

lemma state_eta: "\<lparr>ctx = ctx st, heap = heap st\<rparr> = st"
  by simp

lemma NewAgentCoreStack_phases:
  assumes D: "ApplyDefaults X (heap st) c0 = (h0, cfg)"
    and V: "Validate X h0 cfg = None"
    and vpc: "VPC cfg = Some vpc"
    and iam: "IAM cfg = Some p"
    and obs: "Observability cfg = Some obs"
  shows "\<exists>h'. NewAgentCoreStack X st c0 =
           (case issue_phases X (ctx st)
                   (stack_phases (StackName cfg) vpc (iamcfgs h0 p) obs (Agents cfg)
                      (base_tags (strmap_entries h0 (Tags cfg)))) of
              (c', Some e) \<Rightarrow> (\<lparr>ctx = c', heap = h'\<rparr>, Return (None, Some e))
            | (c', None) \<Rightarrow>
                (case exportOutputs c' (translated_stack cfg vpc obs) of
                   (c'', stack) \<Rightarrow> (\<lparr>ctx = c'', heap = h'\<rparr>, Return (Some stack, None))))"
proof -
  let ?tags = "snd (new_StringMap h0)"
  let ?h3 = "StringMap_set
               (copy_config_tags (fst (new_StringMap h0)) ?tags
                  (strmap_entries (fst (new_StringMap h0)) (Tags cfg)))
               ?tags ''ManagedBy'' (PString ''agentkit-pulumi'')"
  let ?st3 = "st\<lparr>heap := ?h3\<rparr>"
  let ?base = "base_tags (strmap_entries h0 (Tags cfg))"
  let ?n = "StackName cfg"
  let ?s0 = "new_stack cfg"
  let ?P1 = "if CreateVPC vpc then vpc_plan ?n (VPCCidr vpc) ?base else []"
  let ?vpcId = "if CreateVPC vpc then PID ''vpc''
                else if VPCID vpc \<noteq> [] then PString (VPCID vpc) else PUnset"
  let ?P2 = "sg_plan ?n ?vpcId ?base"
  let ?P3 = "iam_plan ?n (iamcfgs h0 p) (Agents cfg) ?base"
  let ?P4 = "if EnableCloudWatchLogs obs then log_plan ?n obs ?base else []"
  let ?s1 = "?s0\<lparr>stack_VPC := (if CreateVPC vpc then Some ''vpc'' else None),
                 InternetGateway := (if CreateVPC vpc then Some ''igw'' else None),
                 PublicSubnet := (if CreateVPC vpc then Some ''public-subnet'' else None),
                 PrivateSubnet := (if CreateVPC vpc then Some ''private-subnet'' else None),
                 NatGateway := (if CreateVPC vpc then Some ''nat'' else None)\<rparr>"
  let ?s2 = "?s1\<lparr>SecurityGroup := Some ''sg''\<rparr>"
  let ?s3 = "?s2\<lparr>ExecutionRole := Some ''execution-role''\<rparr>"
  let ?s4 = "?s3\<lparr>LogGroup := (if EnableCloudWatchLogs obs then Some ''log-group'' else None)\<rparr>"
  have tags3: "?tags < next_addr ?h3"
    by (simp add: new_StringMap_def StringMap_set_def copy_config_tags_eq)
  have base3: "stringmaps ?h3 ?tags = ?base"
    by (simp add: new_StringMap_def StringMap_set_def copy_config_tags_eq base_tags_def
        strmap_entries_def split: option.splits)
  have iam3: "iamcfgs ?h3 = iamcfgs h0"
    by (simp add: new_StringMap_def StringMap_set_def copy_config_tags_eq)
  have unfold:
    "NewAgentCoreStack X st c0 =
       (case (if CreateVPC vpc then createVPC X ?st3 ?s0 ?tags else (?st3, Return (?s0, None))) of
          (st4, Panic p) \<Rightarrow> (st4, Panic p)
        | (st4, Return (stack, Some err)) \<Rightarrow> (st4, Return (None, Some (Errorf ''failed to create VPC: '' err)))
        | (st4, Return (stack, None)) \<Rightarrow>
        case createSecurityGroup X st4 stack ?tags of
          (st5, Panic p) \<Rightarrow> (st5, Panic p)
        | (st5, Return (stack, Some err)) \<Rightarrow> (st5, Return (None, Some (Errorf ''failed to create security group: '' err)))
        | (st5, Return (stack, None)) \<Rightarrow>
        case createIAMRole X st5 stack ?tags of
          (st6, Panic p) \<Rightarrow> (st6, Panic p)
        | (st6, Return (stack, Some err)) \<Rightarrow> (st6, Return (None, Some (Errorf ''failed to create IAM role: '' err)))
        | (st6, Return (stack, None)) \<Rightarrow>
        case (if EnableCloudWatchLogs obs then createLogGroup X st6 stack ?tags else (st6, Return (stack, None))) of
          (st7, Panic p) \<Rightarrow> (st7, Panic p)
        | (st7, Return (stack, Some err)) \<Rightarrow> (st7, Return (None, Some (Errorf ''failed to create log group: '' err)))
        | (st7, Return (stack, None)) \<Rightarrow>
        let (c8, stack) = exportOutputs (ctx st7) stack
        in (st7\<lparr>ctx := c8\<rparr>, Return (Some stack, None)))"
    by (simp add: NewAgentCoreStack_def D V vpc obs Let_def case_prod_beta)
  \<comment> \<open>phase 1: the network\<close>
  have "\<exists>st4 s4.
          (if CreateVPC vpc then createVPC X ?st3 ?s0 ?tags else (?st3, Return (?s0, None))) =
            (st4, Return (s4, snd (issue_all X (ctx st) ?P1))) \<and>
          ctx st4 = fst (issue_all X (ctx st) ?P1) \<and>
          heap_frame ?tags ?h3 (heap st4) \<and>
          (snd (issue_all X (ctx st) ?P1) = None \<longrightarrow> s4 = ?s1)"
  proof (cases "CreateVPC vpc")
    case True
    have "VPC (Config ?s0) = Some vpc" by (simp add: new_stack_def vpc)
    from createVPC_plan [OF this, of ?tags ?st3 X] tags3 base3 True
    show ?thesis by (simp add: new_stack_def)
  next
    case False
    then show ?thesis by (simp add: heap_frame_refl new_stack_def)
  qed
  then obtain st4 s4 where
    H1: "(if CreateVPC vpc then createVPC X ?st3 ?s0 ?tags else (?st3, Return (?s0, None))) =
           (st4, Return (s4, snd (issue_all X (ctx st) ?P1))) \<and>
         ctx st4 = fst (issue_all X (ctx st) ?P1) \<and>
         heap_frame ?tags ?h3 (heap st4) \<and>
         (snd (issue_all X (ctx st) ?P1) = None \<longrightarrow> s4 = ?s1)"
    by (elim exE)
  note r1 = H1 [THEN conjunct1]
    and c4 = H1 [THEN conjunct2, THEN conjunct1]
    and f4 = H1 [THEN conjunct2, THEN conjunct2, THEN conjunct1]
    and s4 = H1 [THEN conjunct2, THEN conjunct2, THEN conjunct2, THEN mp]
  show ?thesis
  proof (cases "snd (issue_all X (ctx st) ?P1)")
    case (Some e)
    have "NewAgentCoreStack X st c0 = (st4, Return (None, Some (Errorf ''failed to create VPC: '' e)))"
      unfolding unfold r1 by (simp add: Some)
    moreover have "issue_phases X (ctx st) (stack_phases ?n vpc (iamcfgs h0 p) obs (Agents cfg) ?base) =
        (ctx st4, Some (Errorf ''failed to create VPC: '' e))"
      using Some c4 by (simp add: stack_phases_def issue_phases_Cons del: issue_phases.simps(2))
    ultimately show ?thesis
      by (intro exI [of _ "heap st4"]) simp
  next
    case n1: None
    note s4 = s4 [OF n1]
    \<comment> \<open>phase 2: the security group\<close>
    have tags4: "?tags < next_addr (heap st4)"
      using f4 tags3 by (simp add: heap_frame_def)
    have base4: "stringmaps (heap st4) ?tags = ?base"
      using f4 base3 by (simp add: heap_frame_def)
    have vid: "sg_vpcId s4 = Return ?vpcId"
      by (simp add: s4 sg_vpcId_def new_stack_def vpc)
    have "\<exists>st5 s5.
            createSecurityGroup X st4 s4 ?tags = (st5, Return (s5, snd (issue_all X (ctx st4) ?P2))) \<and>
            ctx st5 = fst (issue_all X (ctx st4) ?P2) \<and>
            heap_frame ?tags (heap st4) (heap st5) \<and>
            (snd (issue_all X (ctx st4) ?P2) = None \<longrightarrow> s5 = ?s2)"
      using createSecurityGroup_plan [OF vid tags4, of X]
      by (simp add: base4 s4 new_stack_def)
    then obtain st5 s5 where
      H2: "createSecurityGroup X st4 s4 ?tags = (st5, Return (s5, snd (issue_all X (ctx st4) ?P2))) \<and>
           ctx st5 = fst (issue_all X (ctx st4) ?P2) \<and>
           heap_frame ?tags (heap st4) (heap st5) \<and>
           (snd (issue_all X (ctx st4) ?P2) = None \<longrightarrow> s5 = ?s2)"
      by (elim exE)
    note r2 = H2 [THEN conjunct1]
      and c5 = H2 [THEN conjunct2, THEN conjunct1]
      and f5 = H2 [THEN conjunct2, THEN conjunct2, THEN conjunct1]
      and s5 = H2 [THEN conjunct2, THEN conjunct2, THEN conjunct2, THEN mp]
    show ?thesis
    proof (cases "snd (issue_all X (ctx st4) ?P2)")
      case (Some e)
      have "NewAgentCoreStack X st c0 =
          (st5, Return (None, Some (Errorf ''failed to create security group: '' e)))"
        unfolding unfold r1 by (simp add: n1 r2 Some)
      moreover have "issue_phases X (ctx st) (stack_phases ?n vpc (iamcfgs h0 p) obs (Agents cfg) ?base) =
          (ctx st5, Some (Errorf ''failed to create security group: '' e))"
        using n1 Some c4 c5 by (simp add: stack_phases_def issue_phases_Cons del: issue_phases.simps(2))
      ultimately show ?thesis
        by (intro exI [of _ "heap st5"]) simp
    next
      case n2: None
      note s5 = s5 [OF n2]
      \<comment> \<open>phase 3: the role\<close>
      have f5': "heap_frame ?tags ?h3 (heap st5)"
        using f4 f5 by (rule heap_frame_trans)
      have tags5: "?tags < next_addr (heap st5)"
        using f5' tags3 by (simp add: heap_frame_def)
      have base5: "stringmaps (heap st5) ?tags = ?base"
        using f5' base3 by (simp add: heap_frame_def)
      have iam5: "iamcfgs (heap st5) = iamcfgs h0"
        using f5' iam3 by (simp add: heap_frame_def)
      have "IAM (Config s5) = Some p"
        by (simp add: s5 new_stack_def iam)
      from createIAMRole_plan [OF this tags5, of X]
      have "\<exists>st6 s6.
              createIAMRole X st5 s5 ?tags = (st6, Return (s6, snd (issue_all X (ctx st5) ?P3))) \<and>
              ctx st6 = fst (issue_all X (ctx st5) ?P3) \<and>
              heap_frame ?tags (heap st5) (heap st6) \<and>
              (snd (issue_all X (ctx st5) ?P3) = None \<longrightarrow> s6 = ?s3)"
        by (simp add: base5 iam5 s5 new_stack_def)
      then obtain st6 s6 where
        H3: "createIAMRole X st5 s5 ?tags = (st6, Return (s6, snd (issue_all X (ctx st5) ?P3))) \<and>
             ctx st6 = fst (issue_all X (ctx st5) ?P3) \<and>
             heap_frame ?tags (heap st5) (heap st6) \<and>
             (snd (issue_all X (ctx st5) ?P3) = None \<longrightarrow> s6 = ?s3)"
        by (elim exE)
      note r3 = H3 [THEN conjunct1]
        and c6 = H3 [THEN conjunct2, THEN conjunct1]
        and f6 = H3 [THEN conjunct2, THEN conjunct2, THEN conjunct1]
        and s6 = H3 [THEN conjunct2, THEN conjunct2, THEN conjunct2, THEN mp]
      show ?thesis
      proof (cases "snd (issue_all X (ctx st5) ?P3)")
        case (Some e)
        have "NewAgentCoreStack X st c0 =
            (st6, Return (None, Some (Errorf ''failed to create IAM role: '' e)))"
          unfolding unfold r1 by (simp add: n1 r2 n2 r3 Some)
        moreover have "issue_phases X (ctx st) (stack_phases ?n vpc (iamcfgs h0 p) obs (Agents cfg) ?base) =
            (ctx st6, Some (Errorf ''failed to create IAM role: '' e))"
          using n1 n2 Some c4 c5 c6 by (simp add: stack_phases_def issue_phases_Cons del: issue_phases.simps(2))
        ultimately show ?thesis
          by (intro exI [of _ "heap st6"]) simp
      next
        case n3: None
        note s6 = s6 [OF n3]
        \<comment> \<open>phase 4: the log group\<close>
        have f6': "heap_frame ?tags ?h3 (heap st6)"
          using f5' f6 by (rule heap_frame_trans)
        have tags6: "?tags < next_addr (heap st6)"
          using f6' tags3 by (simp add: heap_frame_def)
        have base6: "stringmaps (heap st6) ?tags = ?base"
          using f6' base3 by (simp add: heap_frame_def)
        have "\<exists>st7 s7.
                (if EnableCloudWatchLogs obs then createLogGroup X st6 s6 ?tags
                 else (st6, Return (s6, None))) =
                  (st7, Return (s7, snd (issue_all X (ctx st6) ?P4))) \<and>
                ctx st7 = fst (issue_all X (ctx st6) ?P4) \<and>
                (snd (issue_all X (ctx st6) ?P4) = None \<longrightarrow> s7 = ?s4)"
        proof (cases "EnableCloudWatchLogs obs")
          case True
          have "Observability (Config s6) = Some obs"
            by (simp add: s6 new_stack_def obs)
          from createLogGroup_plan [OF this tags6, of X] obtain st7 s7 where
            H: "createLogGroup X st6 s6 ?tags =
                  (st7, Return (s7, snd (issue_all X (ctx st6)
                     (log_plan (StackName (Config s6)) obs (stringmaps (heap st6) ?tags))))) \<and>
                ctx st7 = fst (issue_all X (ctx st6)
                     (log_plan (StackName (Config s6)) obs (stringmaps (heap st6) ?tags))) \<and>
                heap_frame ?tags (heap st6) (heap st7) \<and>
                (snd (issue_all X (ctx st6)
                     (log_plan (StackName (Config s6)) obs (stringmaps (heap st6) ?tags))) = None \<longrightarrow>
                 s7 = s6\<lparr>LogGroup := Some ''log-group''\<rparr>)"
            by (elim exE)
          have cfg6: "Config s6 = cfg" by (simp add: s6 new_stack_def)
          from H True show ?thesis
            by (intro exI [of _ st7] exI [of _ s7]) (simp add: base6 cfg6, simp add: s6)
        next
          case False
          then show ?thesis by (simp add: s6 new_stack_def)
        qed
        then obtain st7 s7 where
          H4: "(if EnableCloudWatchLogs obs then createLogGroup X st6 s6 ?tags
                else (st6, Return (s6, None))) =
                 (st7, Return (s7, snd (issue_all X (ctx st6) ?P4))) \<and>
               ctx st7 = fst (issue_all X (ctx st6) ?P4) \<and>
               (snd (issue_all X (ctx st6) ?P4) = None \<longrightarrow> s7 = ?s4)"
          by (elim exE)
        note r4 = H4 [THEN conjunct1]
          and c7 = H4 [THEN conjunct2, THEN conjunct1]
          and s7 = H4 [THEN conjunct2, THEN conjunct2, THEN mp]
        show ?thesis
        proof (cases "snd (issue_all X (ctx st6) ?P4)")
          case (Some e)
          have "NewAgentCoreStack X st c0 =
              (st7, Return (None, Some (Errorf ''failed to create log group: '' e)))"
            unfolding unfold r1 by (simp add: n1 r2 n2 r3 n3 r4 Some)
          moreover have "issue_phases X (ctx st) (stack_phases ?n vpc (iamcfgs h0 p) obs (Agents cfg) ?base) =
              (ctx st7, Some (Errorf ''failed to create log group: '' e))"
            using n1 n2 n3 Some c4 c5 c6 c7 by (simp add: stack_phases_def issue_phases_Cons del: issue_phases.simps(2))
          ultimately show ?thesis
            by (intro exI [of _ "heap st7"]) simp
        next
          case n4: None
          note s7 = s7 [OF n4]
          have s7': "s7 = translated_stack cfg vpc obs"
            by (simp add: s7 translated_stack_def new_stack_def)
          have "NewAgentCoreStack X st c0 =
              (case exportOutputs (ctx st7) (translated_stack cfg vpc obs) of
                 (c8, stack) \<Rightarrow> (st7\<lparr>ctx := c8\<rparr>, Return (Some stack, None)))"
            unfolding unfold r1 by (simp add: n1 r2 n2 r3 n3 r4 n4 s7')
          moreover have "issue_phases X (ctx st) (stack_phases ?n vpc (iamcfgs h0 p) obs (Agents cfg) ?base) =
              (ctx st7, None)"
            using n1 n2 n3 n4 c4 c5 c6 c7 by (simp add: stack_phases_def issue_phases_Cons del: issue_phases.simps(2))
          ultimately show ?thesis
            by (intro exI [of _ "heap st7"]) (simp add: case_prod_beta)
        qed
      qed
    qed
  qed
qed

subsection \<open>What a sequence of registrations leaves in the context\<close>

lemma issue_all_prefix:
  "\<exists>n. issued_prefix X c rs (fst (issue_all X c rs)) (snd (issue_all X c rs)) n"
proof (induction rs arbitrary: c)
  case Nil
  show ?case by (simp add: issued_prefix_def)
next
  case (Cons r rs)
  show ?case
  proof (cases "engine X (requests c) r")
    case (Some e)
    then have "issued_prefix X c (r # rs) (fst (issue_all X c (r # rs))) (snd (issue_all X c (r # rs))) 1"
      by (simp add: issued_prefix_def RegisterResource_def)
    then show ?thesis ..
  next
    case None
    let ?c = "c\<lparr>requests := requests c @ [r]\<rparr>"
    from Cons.IH [of ?c] obtain n where
      n: "issued_prefix X ?c rs (fst (issue_all X ?c rs)) (snd (issue_all X ?c rs)) n" ..
    have eq: "issue_all X c (r # rs) = issue_all X ?c rs"
      using None by (simp add: RegisterResource_def)
    have idx: "\<And>i. engine X (requests c @ take (Suc i) (r # rs)) ((r # rs) ! Suc i) =
                     engine X (requests ?c @ take i rs) (rs ! i)"
      by simp
    have "issued_prefix X c (r # rs) (fst (issue_all X ?c rs)) (snd (issue_all X ?c rs)) (Suc n)"
      unfolding issued_prefix_def
    proof (intro conjI)
      show "Suc n \<le> length (r # rs)" using n by (simp add: issued_prefix_def)
      show "requests (fst (issue_all X ?c rs)) = requests c @ take (Suc n) (r # rs)"
        using n by (simp add: issued_prefix_def)
      show "exports (fst (issue_all X ?c rs)) = exports c"
        using n by (simp add: issued_prefix_def)
      show "\<forall>i. Suc i < Suc n \<longrightarrow> engine X (requests c @ take i (r # rs)) ((r # rs) ! i) = None"
      proof (intro allI impI)
        fix i assume i: "Suc i < Suc n"
        show "engine X (requests c @ take i (r # rs)) ((r # rs) ! i) = None"
        proof (cases i)
          case 0
          then show ?thesis using None by simp
        next
          case (Suc j)
          with i have "Suc j < n" by simp
          with n have "engine X (requests ?c @ take j rs) (rs ! j) = None"
            by (simp add: issued_prefix_def)
          then show ?thesis by (simp add: Suc)
        qed
      qed
      show "case snd (issue_all X ?c rs) of
              None \<Rightarrow> Suc n = length (r # rs) \<and>
                (\<forall>i<Suc n. engine X (requests c @ take i (r # rs)) ((r # rs) ! i) = None)
            | Some e \<Rightarrow> 0 < Suc n \<and>
                engine X (requests c @ take (Suc n - 1) (r # rs)) ((r # rs) ! (Suc n - 1)) = Some e"
      proof (cases "snd (issue_all X ?c rs)")
        case (Some e)
        with n have pos: "0 < n"
          and rej: "engine X (requests ?c @ take (n - 1) rs) (rs ! (n - 1)) = Some e"
          by (simp_all add: issued_prefix_def)
        from pos obtain m where m: "n = Suc m" by (cases n) auto
        from rej show ?thesis by (simp add: Some m)
      next
        case n': None
        with n have len: "n = length rs"
          and acc: "\<forall>i<n. engine X (requests ?c @ take i rs) (rs ! i) = None"
          by (simp_all add: issued_prefix_def)
        have "\<forall>i<Suc n. engine X (requests c @ take i (r # rs)) ((r # rs) ! i) = None"
        proof (intro allI impI)
          fix i assume i: "i < Suc n"
          show "engine X (requests c @ take i (r # rs)) ((r # rs) ! i) = None"
          proof (cases i)
            case 0
            then show ?thesis using None by simp
          next
            case (Suc j)
            with i acc have "engine X (requests ?c @ take j rs) (rs ! j) = None" by simp
            then show ?thesis by (simp add: Suc)
          qed
        qed
        then show ?thesis by (simp add: n' len)
      qed
    qed
    then show ?thesis unfolding eq ..
  qed
qed

lemma issued_prefix_append_fail:
  assumes "issued_prefix X c rs c1 (Some e) n"
  shows "issued_prefix X c (rs @ rs') c1 (Some e) n"
proof -
  from assms have n: "n \<le> length rs" "0 < n" by (simp_all add: issued_prefix_def)
  then obtain m where m: "n = Suc m" by (cases n) auto
  have idx: "take i (rs @ rs') = take i rs \<and> (rs @ rs') ! i = rs ! i" if "i < n" for i
    using that n by (simp add: nth_append)
  have last: "take m (rs @ rs') = take m rs" "(rs @ rs') ! m = rs ! m"
    using idx [of m] m by simp_all
  have early: "\<forall>i. Suc i < n \<longrightarrow> take i (rs @ rs') = take i rs \<and> (rs @ rs') ! i = rs ! i"
    using idx by simp
  from assms have
    "requests c1 = requests c @ take n rs" "exports c1 = exports c"
    "\<forall>i. Suc i < n \<longrightarrow> engine X (requests c @ take i rs) (rs ! i) = None"
    "engine X (requests c @ take m rs) (rs ! m) = Some e"
    by (simp_all add: issued_prefix_def m)
  with n early last show ?thesis
    unfolding issued_prefix_def by (simp add: m)
qed

lemma issued_prefix_append_ok:
  assumes 1: "issued_prefix X c rs c1 None n1"
    and 2: "issued_prefix X c1 rs' c2 err n2"
  shows "issued_prefix X c (rs @ rs') c2 err (length rs + n2)"
proof -
  from 1 have n1: "n1 = length rs" and r1: "requests c1 = requests c @ rs"
    and e1: "exports c1 = exports c"
    and a1: "\<And>i. i < length rs \<Longrightarrow> engine X (requests c @ take i rs) (rs ! i) = None"
    by (simp_all add: issued_prefix_def)
  from 2 have n2: "n2 \<le> length rs'" and r2: "requests c2 = requests c1 @ take n2 rs'"
    and e2: "exports c2 = exports c1"
    and a2: "\<And>i. Suc i < n2 \<Longrightarrow> engine X (requests c1 @ take i rs') (rs' ! i) = None"
    by (simp_all add: issued_prefix_def)
  have acc: "engine X (requests c @ take i (rs @ rs')) ((rs @ rs') ! i) = None"
    if "i < length rs \<or> (length rs \<le> i \<and>
          engine X (requests c1 @ take (i - length rs) rs') (rs' ! (i - length rs)) = None)" for i
  proof (cases "i < length rs")
    case True
    then show ?thesis using a1 [of i] by (simp add: nth_append)
  next
    case False
    with that show ?thesis by (simp add: nth_append r1)
  qed
  have early: "\<forall>i. Suc i < length rs + n2 \<longrightarrow>
      engine X (requests c @ take i (rs @ rs')) ((rs @ rs') ! i) = None"
  proof (intro allI impI)
    fix i assume i: "Suc i < length rs + n2"
    show "engine X (requests c @ take i (rs @ rs')) ((rs @ rs') ! i) = None"
    proof (cases "i < length rs")
      case True
      then show ?thesis by (intro acc) simp
    next
      case False
      with i have "Suc (i - length rs) < n2" by simp
      from a2 [OF this] False show ?thesis by (intro acc) simp
    qed
  qed
  have final: "case err of
      None \<Rightarrow> length rs + n2 = length (rs @ rs') \<and>
        (\<forall>i<length rs + n2. engine X (requests c @ take i (rs @ rs')) ((rs @ rs') ! i) = None)
    | Some e \<Rightarrow> 0 < length rs + n2 \<and>
        engine X (requests c @ take (length rs + n2 - 1) (rs @ rs')) ((rs @ rs') ! (length rs + n2 - 1)) = Some e"
  proof (cases err)
    case None
    with 2 have len: "n2 = length rs'"
      and a2': "\<And>i. i < n2 \<Longrightarrow> engine X (requests c1 @ take i rs') (rs' ! i) = None"
      by (simp_all add: issued_prefix_def)
    have "\<forall>i<length rs + n2. engine X (requests c @ take i (rs @ rs')) ((rs @ rs') ! i) = None"
    proof (intro allI impI)
      fix i assume i: "i < length rs + n2"
      show "engine X (requests c @ take i (rs @ rs')) ((rs @ rs') ! i) = None"
      proof (cases "i < length rs")
        case True
        then show ?thesis by (intro acc) simp
      next
        case False
        with i have "i - length rs < n2" by simp
        from a2' [OF this] False show ?thesis by (intro acc) simp
      qed
    qed
    then show ?thesis by (simp add: None len)
  next
    case (Some e)
    with 2 have pos: "0 < n2"
      and rej: "engine X (requests c1 @ take (n2 - 1) rs') (rs' ! (n2 - 1)) = Some e"
      by (simp_all add: issued_prefix_def)
    from pos obtain j where j: "n2 = Suc j" by (cases n2) auto
    from rej have "engine X (requests c @ take (length rs + j) (rs @ rs')) ((rs @ rs') ! (length rs + j)) = Some e"
      by (simp add: j r1)
    then show ?thesis by (simp add: Some j)
  qed
  show ?thesis
    unfolding issued_prefix_def
    using n2 r1 r2 e1 e2 early final by simp
qed

lemma issue_phases_prefix:
  "\<exists>n. phases_outcome X c ps (fst (issue_phases X c ps)) (snd (issue_phases X c ps)) n"
proof (induction ps arbitrary: c)
  case Nil
  show ?case by (simp add: phases_outcome_def issued_prefix_def)
next
  case (Cons ph ps)
  obtain msg rs where ph: "ph = (msg, rs)" by (cases ph)
  from issue_all_prefix [of X c rs] obtain n1 where
    n1: "issued_prefix X c rs (fst (issue_all X c rs)) (snd (issue_all X c rs)) n1" ..
  show ?case
  proof (cases "snd (issue_all X c rs)")
    case (Some e)
    from n1 have b: "0 < n1" "n1 \<le> length rs" by (simp_all add: Some issued_prefix_def)
    have "issued_prefix X c (rs @ concat (map snd ps)) (fst (issue_all X c rs)) (Some e) n1"
      using n1 unfolding Some by (rule issued_prefix_append_fail)
    moreover have "phase_message ((msg, rs) # ps) (n1 - 1) = msg"
    proof -
      from b have "n1 - 1 < length rs" by arith
      then show ?thesis by simp
    qed
    ultimately have "phases_outcome X c (ph # ps) (fst (issue_phases X c (ph # ps)))
        (snd (issue_phases X c (ph # ps))) n1"
      by (simp add: phases_outcome_def ph issue_phases_Cons Some del: issue_phases.simps(2))
    then show ?thesis ..
  next
    case None
    let ?c = "fst (issue_all X c rs)"
    from Cons.IH [of ?c] obtain n2 where
      n2: "phases_outcome X ?c ps (fst (issue_phases X ?c ps)) (snd (issue_phases X ?c ps)) n2" ..
    let ?err = "case snd (issue_phases X ?c ps) of None \<Rightarrow> None | Some e \<Rightarrow> Unwrap e"
    from n2 have p2: "issued_prefix X ?c (concat (map snd ps)) (fst (issue_phases X ?c ps)) ?err n2"
      by (simp add: phases_outcome_def)
    from n1 have p1: "issued_prefix X c rs ?c None n1" by (simp add: None)
    have p: "issued_prefix X c (rs @ concat (map snd ps)) (fst (issue_phases X ?c ps)) ?err (length rs + n2)"
      using p1 p2 by (rule issued_prefix_append_ok)
    have msg: "phase_message ((msg, rs) # ps) (length rs + n2 - 1) = phase_message ps (n2 - 1)"
      if "0 < n2"
    proof -
      from that obtain j where j: "n2 = Suc j" by (cases n2) auto
      show ?thesis by (simp add: j)
    qed
    have pos: "0 < n2" if "snd (issue_phases X ?c ps) = Some e" for e
      using n2 that by (simp add: phases_outcome_def issued_prefix_def split: option.splits)
    have "phases_outcome X c (ph # ps) (fst (issue_phases X c (ph # ps)))
        (snd (issue_phases X c (ph # ps))) (length rs + n2)"
      using p n2 msg pos
      by (auto simp add: phases_outcome_def ph issue_phases_Cons None
          simp del: issue_phases.simps(2) phase_message.simps split: option.splits)
    then show ?thesis ..
  qed
qed

subsection \<open>NewAgentCoreStack and the translation of the design\<close>

lemma rtype_req [simp]:
  "rtype (req_vpc cidr t) = ''ec2.Vpc''"
  "rtype (req_igw t) = ''ec2.InternetGateway''"
  "rtype (req_public_subnet t) = ''ec2.Subnet''"
  "rtype (req_private_subnet t) = ''ec2.Subnet''"
  "rtype (req_nat_eip t) = ''ec2.Eip''"
  "rtype (req_nat t) = ''ec2.NatGateway''"
  "rtype (req_public_rt t) = ''ec2.RouteTable''"
  "rtype req_public_rta = ''ec2.RouteTableAssociation''"
  "rtype (req_private_rt t) = ''ec2.RouteTable''"
  "rtype req_private_rta = ''ec2.RouteTableAssociation''"
  "rtype (req_sg n v t) = ''ec2.SecurityGroup''"
  "rtype req_sg_self_ingress = ''ec2.SecurityGroupRule''"
  "rtype (req_execution_role n t) = ''iam.Role''"
  "rtype (req_execution_policy n pol) = ''iam.Policy''"
  "rtype req_execution_policy_attachment = ''iam.RolePolicyAttachment''"
  "rtype (req_log_group n d t) = ''cloudwatch.LogGroup''"
  by (simp_all add: req_vpc_def req_igw_def req_public_subnet_def req_private_subnet_def req_nat_eip_def
      req_nat_def req_public_rt_def req_public_rta_def req_private_rt_def req_private_rta_def
      req_sg_def req_sg_self_ingress_def req_execution_role_def req_execution_policy_def
      req_execution_policy_attachment_def req_log_group_def)

lemma exportOutputs_requests: "requests (fst (exportOutputs c s)) = requests c"
  by (simp add: exportOutputs_def Export_def Let_def case_prod_beta split: option.splits)

lemma NewAgentCoreStack_translation:
  assumes "ApplyDefaults X (heap st) c0 = (h0, cfg)"
    and "Validate X h0 cfg = None"
    and "VPC cfg = Some vpc"
    and "IAM cfg = Some p"
    and "Observability cfg = Some obs"
  shows "\<exists>h'. NewAgentCoreStack X st c0 =
           (\<lparr>ctx = fst (translation X (ctx st) cfg vpc (iamcfgs h0 p) obs
                           (base_tags (strmap_entries h0 (Tags cfg)))),
             heap = h'\<rparr>,
            Return (snd (translation X (ctx st) cfg vpc (iamcfgs h0 p) obs
                           (base_tags (strmap_entries h0 (Tags cfg))))))"
proof -
  from NewAgentCoreStack_phases [OF assms] obtain h' where
    "NewAgentCoreStack X st c0 =
       (case issue_phases X (ctx st)
               (stack_phases (StackName cfg) vpc (iamcfgs h0 p) obs (Agents cfg)
                  (base_tags (strmap_entries h0 (Tags cfg)))) of
          (c', Some e) \<Rightarrow> (\<lparr>ctx = c', heap = h'\<rparr>, Return (None, Some e))
        | (c', None) \<Rightarrow>
            (case exportOutputs c' (translated_stack cfg vpc obs) of
               (c'', stack) \<Rightarrow> (\<lparr>ctx = c'', heap = h'\<rparr>, Return (Some stack, None))))" ..
  then show ?thesis
    by (intro exI [of _ h']) (simp add: translation_def split: prod.splits option.splits)
qed

lemma translation_outcome:
  "\<exists>n c'. phases_outcome X c (stack_phases (StackName cfg) vpc iam obs (Agents cfg) base) c'
            (snd (snd (translation X c cfg vpc iam obs base))) n \<and>
          requests (fst (translation X c cfg vpc iam obs base)) = requests c' \<and>
          (case snd (snd (translation X c cfg vpc iam obs base)) of
             Some e \<Rightarrow> translation X c cfg vpc iam obs base = (c', None, Some e)
           | None \<Rightarrow> translation X c cfg vpc iam obs base =
                       (fst (exportOutputs c' (translated_stack cfg vpc obs)),
                        Some (snd (exportOutputs c' (translated_stack cfg vpc obs))), None))"
proof -
  let ?ps = "stack_phases (StackName cfg) vpc iam obs (Agents cfg) base"
  from issue_phases_prefix [of X c ?ps] obtain n where
    n: "phases_outcome X c ?ps (fst (issue_phases X c ?ps)) (snd (issue_phases X c ?ps)) n" ..
  show ?thesis
  proof (cases "snd (issue_phases X c ?ps)")
    case None
    with n show ?thesis
      by (intro exI [of _ n] exI [of _ "fst (issue_phases X c ?ps)"])
        (simp add: translation_def case_prod_beta exportOutputs_requests)
  next
    case (Some e)
    with n show ?thesis
      by (intro exI [of _ n] exI [of _ "fst (issue_phases X c ?ps)"])
        (simp add: translation_def case_prod_beta)
  qed
qed

lemma issued_since_prefix:
  "requests c' = requests c @ take n plan \<Longrightarrow> issued_since c c' = take n plan"
  by (simp add: issued_since_def)

lemma issue_all_accepting:
  "\<forall>l r. engine X l r = None \<Longrightarrow> snd (issue_all X c rs) = None"
  by (induction rs arbitrary: c) (simp_all add: RegisterResource_def)

lemma issue_phases_accepting:
  "\<forall>l r. engine X l r = None \<Longrightarrow> snd (issue_phases X c ps) = None"
proof (induction ps arbitrary: c)
  case Nil
  show ?case by simp
next
  case (Cons ph ps)
  obtain msg rs where ph: "ph = (msg, rs)" by (cases ph)
  from Cons show ?case
    by (simp add: ph issue_phases_Cons issue_all_accepting del: issue_phases.simps(2))
qed

lemma translation_accepting:
  "\<forall>l r. engine X l r = None \<Longrightarrow> snd (snd (translation X c cfg vpc iam obs base)) = None"
  using issue_phases_accepting [of X c "stack_phases (StackName cfg) vpc iam obs (Agents cfg) base"]
  by (simp add: translation_def case_prod_beta)

lemma example_run:
  "ApplyDefaults example_externals h c = (h, c)"
  "Validate example_externals h example_config = None"
  "Validate example_externals h existing_vpc_config = None"
  "\<forall>l r. engine example_externals l r = None"
  "heap example_state = example_heap"
  "ctx example_state = \<lparr>requests = [], exports = []\<rparr>"
  by (simp_all add: example_externals_def example_config_def existing_vpc_config_def example_state_def)

lemma NewAgentCoreStack_outcome:
  assumes "ApplyDefaults X (heap st) c0 = (h0, cfg)"
    and "Validate X h0 cfg = None"
    and "VPC cfg = Some vpc"
    and "IAM cfg = Some p"
    and "Observability cfg = Some obs"
  shows "\<exists>st' stack err n c'.
           NewAgentCoreStack X st c0 = (st', Return (stack, err)) \<and>
           phases_outcome X (ctx st)
             (stack_phases (StackName cfg) vpc (iamcfgs h0 p) obs (Agents cfg)
                (base_tags (strmap_entries h0 (Tags cfg)))) c' err n \<and>
           requests (ctx st') = requests c' \<and>
           (case err of
              Some e \<Rightarrow> stack = None \<and> ctx st' = c'
            | None \<Rightarrow> stack = Some (snd (exportOutputs c' (translated_stack cfg vpc obs))) \<and>
                       ctx st' = fst (exportOutputs c' (translated_stack cfg vpc obs)))"
proof -
  let ?base = "base_tags (strmap_entries h0 (Tags cfg))"
  let ?T = "translation X (ctx st) cfg vpc (iamcfgs h0 p) obs ?base"
  let ?ps = "stack_phases (StackName cfg) vpc (iamcfgs h0 p) obs (Agents cfg) ?base"
  from NewAgentCoreStack_translation [OF assms] obtain h' where
    run: "NewAgentCoreStack X st c0 = (\<lparr>ctx = fst ?T, heap = h'\<rparr>, Return (snd ?T))" ..
  from translation_outcome [of X "ctx st" cfg vpc "iamcfgs h0 p" obs ?base] obtain n c' where
    out: "phases_outcome X (ctx st) ?ps c' (snd (snd ?T)) n"
    and req: "requests (fst ?T) = requests c'"
    and res: "case snd (snd ?T) of
                Some e \<Rightarrow> ?T = (c', None, Some e)
              | None \<Rightarrow> ?T = (fst (exportOutputs c' (translated_stack cfg vpc obs)),
                              Some (snd (exportOutputs c' (translated_stack cfg vpc obs))), None)"
    by blast
  have run': "NewAgentCoreStack X st c0 =
      (\<lparr>ctx = fst ?T, heap = h'\<rparr>, Return (fst (snd ?T), snd (snd ?T)))"
    by (simp add: run)
  show ?thesis
  proof (cases "snd (snd ?T)")
    case None
    with res have "?T = (fst (exportOutputs c' (translated_stack cfg vpc obs)),
                         Some (snd (exportOutputs c' (translated_stack cfg vpc obs))), None)"
      by simp
    then have "fst ?T = fst (exportOutputs c' (translated_stack cfg vpc obs))"
      and "fst (snd ?T) = Some (snd (exportOutputs c' (translated_stack cfg vpc obs)))"
      by simp_all
    with run' out req None show ?thesis
      by (intro exI [of _ "\<lparr>ctx = fst ?T, heap = h'\<rparr>"] exI [of _ "fst (snd ?T)"]
          exI [of _ "snd (snd ?T)"] exI [of _ n] exI [of _ c']) simp
  next
    case (Some e)
    with res have "?T = (c', None, Some e)" by simp
    then have "fst ?T = c'" and "fst (snd ?T) = None" by simp_all
    with run' out req Some show ?thesis
      by (intro exI [of _ "\<lparr>ctx = fst ?T, heap = h'\<rparr>"] exI [of _ "fst (snd ?T)"]
          exI [of _ "snd (snd ?T)"] exI [of _ n] exI [of _ c']) simp
  qed
qed

subsection \<open>Claim C1: validation fails fast\<close>

text \<open>
  C1. For every \<open>StackConfig\<close> passed to \<open>NewAgentCoreStack\<close>, the defaults are applied
  and the defaulted configuration is validated first; if validation returns an error,
  \<open>NewAgentCoreStack\<close> returns a nil stack together with an error that wraps the
  validation error (its message is the validation error's, prefixed), and the Pulumi
  context is the one it was called with: no registration was issued and nothing exported.
\<close>

theorem validation_fails_fast:
  assumes "ApplyDefaults X (heap st) config0 = (h0, cfg)"
    and "Validate X h0 cfg = Some err"
  shows "\<exists>st' e.
           NewAgentCoreStack X st config0 = (st', Return (None, Some e)) \<and>
           Unwrap e = Some err \<and>
           Error e = ''invalid stack configuration: '' @ Error err \<and>
           ctx st' = ctx st"
  using assms by (simp add: NewAgentCoreStack_def)

theorem validation_fails_fast_witness:
  "ApplyDefaults example_externals (heap example_state) (example_config\<lparr>StackName := []\<rparr>) =
     (example_heap, example_config\<lparr>StackName := []\<rparr>) \<and>
   Validate example_externals example_heap (example_config\<lparr>StackName := []\<rparr>) =
     Some (ExternalError ''stack name is required'') \<and>
   (\<exists>st' e.
      NewAgentCoreStack example_externals example_state (example_config\<lparr>StackName := []\<rparr>) =
        (st', Return (None, Some e)) \<and>
      Error e = ''invalid stack configuration: stack name is required'' \<and>
      requests (ctx st') = [] \<and> exports (ctx st') = [])"
proof -
  have D: "ApplyDefaults example_externals (heap example_state) (example_config\<lparr>StackName := []\<rparr>) =
             (example_heap, example_config\<lparr>StackName := []\<rparr>)"
    by (simp add: example_externals_def example_state_def)
  have V: "Validate example_externals example_heap (example_config\<lparr>StackName := []\<rparr>) =
             Some (ExternalError ''stack name is required'')"
    by (simp add: example_externals_def)
  from validation_fails_fast [OF D V] D V show ?thesis
    by (auto simp add: example_state_def)
qed

subsection \<open>Claim C2: the order of the registrations\<close>

text \<open>
  C2. For every validated \<open>StackConfig\<close> (defaulted, its sections present), the
  registrations \<open>NewAgentCoreStack\<close> issues are a prefix of one fixed plan: the network
  registrations (only when \<open>createVPC\<close> is true), then the security group's, then the
  IAM role's, then the log group's (only when CloudWatch logs are enabled). Every
  registration before the last issued one was accepted. Either the whole plan was issued
  and accepted and a stack is returned with no error; or the last issued registration is
  the one the engine rejected, nothing was issued after it, the stack is nil, and the
  error wraps the engine's error with the message of the kind that registration belongs
  to.
\<close>

theorem translation_order:
  assumes "ApplyDefaults X (heap st) c0 = (h0, cfg)"
    and "Validate X h0 cfg = None"
    and "VPC cfg = Some vpc"
    and "IAM cfg = Some p"
    and "Observability cfg = Some obs"
  shows "\<exists>st' stack err n.
           NewAgentCoreStack X st c0 = (st', Return (stack, err)) \<and>
           n \<le> length (concat (map snd (stack_phases (StackName cfg) vpc (iamcfgs h0 p) obs (Agents cfg)
                                           (base_tags (strmap_entries h0 (Tags cfg)))))) \<and>
           issued_since (ctx st) (ctx st') =
             take n (concat (map snd (stack_phases (StackName cfg) vpc (iamcfgs h0 p) obs (Agents cfg)
                                        (base_tags (strmap_entries h0 (Tags cfg)))))) \<and>
           requests (ctx st') = requests (ctx st) @ issued_since (ctx st) (ctx st') \<and>
           (\<forall>i. Suc i < n \<longrightarrow>
              engine X (requests (ctx st) @ take i (issued_since (ctx st) (ctx st')))
                (issued_since (ctx st) (ctx st') ! i) = None) \<and>
           (case err of
              None \<Rightarrow>
                stack \<noteq> None \<and>
                n = length (concat (map snd (stack_phases (StackName cfg) vpc (iamcfgs h0 p) obs (Agents cfg)
                                              (base_tags (strmap_entries h0 (Tags cfg)))))) \<and>
                (\<forall>i < n. engine X (requests (ctx st) @ take i (issued_since (ctx st) (ctx st')))
                            (issued_since (ctx st) (ctx st') ! i) = None)
            | Some e \<Rightarrow>
                stack = None \<and> 0 < n \<and>
                (\<exists>e0. engine X (requests (ctx st) @ take (n - 1) (issued_since (ctx st) (ctx st')))
                         (issued_since (ctx st) (ctx st') ! (n - 1)) = Some e0 \<and>
                       e = Errorf (phase_message
                                     (stack_phases (StackName cfg) vpc (iamcfgs h0 p) obs (Agents cfg)
                                        (base_tags (strmap_entries h0 (Tags cfg)))) (n - 1)) e0))"
proof -
  let ?ps = "stack_phases (StackName cfg) vpc (iamcfgs h0 p) obs (Agents cfg)
               (base_tags (strmap_entries h0 (Tags cfg)))"
  let ?plan = "concat (map snd ?ps)"
  from NewAgentCoreStack_outcome [OF assms] obtain st' stack err n c' where
    run: "NewAgentCoreStack X st c0 = (st', Return (stack, err))"
    and out: "phases_outcome X (ctx st) ?ps c' err n"
    and req: "requests (ctx st') = requests c'"
    and res: "case err of
                Some e \<Rightarrow> stack = None \<and> ctx st' = c'
              | None \<Rightarrow> stack = Some (snd (exportOutputs c' (translated_stack cfg vpc obs))) \<and>
                         ctx st' = fst (exportOutputs c' (translated_stack cfg vpc obs))"
    by blast
  from out have n: "n \<le> length ?plan"
    and pre: "requests c' = requests (ctx st) @ take n ?plan"
    and early: "\<forall>i. Suc i < n \<longrightarrow> engine X (requests (ctx st) @ take i ?plan) (?plan ! i) = None"
    by (simp_all add: phases_outcome_def issued_prefix_def)
  have since: "issued_since (ctx st) (ctx st') = take n ?plan"
    by (simp add: issued_since_def req pre)
  have idx: "take i (take n ?plan) = take i ?plan \<and> take n ?plan ! i = ?plan ! i" if "i < n" for i
    using that by (simp add: min_def)
  have early': "\<forall>i. Suc i < n \<longrightarrow>
      engine X (requests (ctx st) @ take i (take n ?plan)) (take n ?plan ! i) = None"
    using early idx by simp
  have final: "case err of
      None \<Rightarrow> stack \<noteq> None \<and> n = length ?plan \<and>
        (\<forall>i < n. engine X (requests (ctx st) @ take i (take n ?plan)) (take n ?plan ! i) = None)
    | Some e \<Rightarrow> stack = None \<and> 0 < n \<and>
        (\<exists>e0. engine X (requests (ctx st) @ take (n - 1) (take n ?plan)) (take n ?plan ! (n - 1)) = Some e0 \<and>
               e = Errorf (phase_message ?ps (n - 1)) e0)"
  proof (cases err)
    case None
    with out have "n = length ?plan"
      and "\<forall>i < n. engine X (requests (ctx st) @ take i ?plan) (?plan ! i) = None"
      by (simp_all add: phases_outcome_def issued_prefix_def)
    with res None idx show ?thesis by simp
  next
    case (Some e)
    with out obtain e0 where e0: "Unwrap e = Some e0" "e = Errorf (phase_message ?ps (n - 1)) e0"
      by (auto simp add: phases_outcome_def split: option.splits)
    with out Some have pos: "0 < n"
      and rej: "engine X (requests (ctx st) @ take (n - 1) ?plan) (?plan ! (n - 1)) = Some e0"
      by (simp_all add: phases_outcome_def issued_prefix_def)
    from pos have "n - 1 < n" by simp
    from idx [OF this] rej
    have "engine X (requests (ctx st) @ take (n - 1) (take n ?plan)) (take n ?plan ! (n - 1)) = Some e0"
      by simp
    with res Some pos e0 show ?thesis by auto
  qed
  show ?thesis
  proof (intro exI conjI)
    show "NewAgentCoreStack X st c0 = (st', Return (stack, err))" by (rule run)
    show "n \<le> length ?plan" by (rule n)
    show "issued_since (ctx st) (ctx st') = take n ?plan" by (rule since)
    show "requests (ctx st') = requests (ctx st) @ issued_since (ctx st) (ctx st')"
      unfolding since req by (rule pre)
    show "\<forall>i. Suc i < n \<longrightarrow>
        engine X (requests (ctx st) @ take i (issued_since (ctx st) (ctx st')))
          (issued_since (ctx st) (ctx st') ! i) = None"
      unfolding since by (rule early')
    show "case err of
        None \<Rightarrow> stack \<noteq> None \<and> n = length ?plan \<and>
          (\<forall>i < n. engine X (requests (ctx st) @ take i (issued_since (ctx st) (ctx st')))
                      (issued_since (ctx st) (ctx st') ! i) = None)
      | Some e \<Rightarrow> stack = None \<and> 0 < n \<and>
          (\<exists>e0. engine X (requests (ctx st) @ take (n - 1) (issued_since (ctx st) (ctx st')))
                   (issued_since (ctx st) (ctx st') ! (n - 1)) = Some e0 \<and>
                 e = Errorf (phase_message ?ps (n - 1)) e0)"
      unfolding since by (rule final)
  qed
qed

text \<open>At a configuration with an existing VPC and no logging, with an engine that rejects
  the role: the security group and its rule are registered, then the role, and nothing
  after it; the error names the IAM role.\<close>

theorem translation_order_witness:
  "ApplyDefaults denying_externals (heap example_state) existing_vpc_config =
     (example_heap, existing_vpc_config) \<and>
   Validate denying_externals example_heap existing_vpc_config = None \<and>
   VPC existing_vpc_config \<noteq> None \<and> IAM existing_vpc_config = Some 1 \<and>
   Observability existing_vpc_config \<noteq> None \<and>
   (\<exists>st'. NewAgentCoreStack denying_externals example_state existing_vpc_config =
            (st', Return (None, Some (Errorf ''failed to create IAM role: '' (ExternalError ''AccessDenied'')))) \<and>
          map rname (issued_since (ctx example_state) (ctx st')) =
            [''sg'', ''sg-self-ingress'', ''execution-role''])"
proof -
  let ?X = denying_externals
  let ?vpc = "\<lparr>CreateVPC = False, VPCCidr = [], MaxAZs = 0, EnableVPCEndpoints = False,
               VPCID = ''vpc-0abc'', SubnetIDs = [''subnet-1'']\<rparr>"
  let ?obs = "\<lparr>Provider = ''none'', Project = [], APIKeySecretARN = [],
               EnableCloudWatchLogs = False, LogRetentionDays = 0\<rparr>"
  let ?base = "base_tags (strmap_entries example_heap (Tags existing_vpc_config))"
  let ?ps = "stack_phases (StackName existing_vpc_config) ?vpc (iamcfgs example_heap (Suc 0)) ?obs
               (Agents existing_vpc_config) ?base"
  let ?plan = "concat (map snd ?ps)"
  let ?r1 = "req_sg ''my-agents'' (PString ''vpc-0abc'') (merged_tags ?base (PString ''my-agents-sg''))"
  let ?r3 = "req_execution_role ''my-agents'' (merged_tags ?base (PString ''my-agents-execution-role''))"
  let ?r4 = "req_execution_policy ''my-agents''
               (policy_document (join_statements 0 (policy_statements (iamcfgs example_heap (Suc 0)) [research_agent]) []))"
  have D: "ApplyDefaults ?X (heap example_state) existing_vpc_config = (example_heap, existing_vpc_config)"
    by (simp add: denying_externals_def example_externals_def example_state_def)
  have V: "Validate ?X example_heap existing_vpc_config = None"
    by (simp add: denying_externals_def example_externals_def existing_vpc_config_def example_config_def)
  have vpc: "VPC existing_vpc_config = Some ?vpc" and iam: "IAM existing_vpc_config = Some (Suc 0)"
    and obs: "Observability existing_vpc_config = Some ?obs"
    by (simp_all add: existing_vpc_config_def example_config_def)
  have eng: "engine ?X l r = (if rtype r = ''iam.Role'' then Some (ExternalError ''AccessDenied'') else None)"
    for l r
    by (simp add: denying_externals_def)
  have plan: "?plan = [?r1, req_sg_self_ingress, ?r3, ?r4, req_execution_policy_attachment]"
    by (simp add: stack_phases_def sg_plan_def iam_plan_def existing_vpc_config_def example_config_def)
  have msg: "phase_message ?ps 2 = ''failed to create IAM role: ''"
    by (simp add: stack_phases_def sg_plan_def iam_plan_def)
  from translation_order [OF D V vpc iam obs] obtain st' stack err n where
    run: "NewAgentCoreStack ?X example_state existing_vpc_config = (st', Return (stack, err))"
    and n: "n \<le> length ?plan"
    and since: "issued_since (ctx example_state) (ctx st') = take n ?plan"
    and final: "case err of
        None \<Rightarrow> stack \<noteq> None \<and> n = length ?plan \<and>
          (\<forall>i < n. engine ?X (requests (ctx example_state) @ take i (issued_since (ctx example_state) (ctx st')))
                      (issued_since (ctx example_state) (ctx st') ! i) = None)
      | Some e \<Rightarrow> stack = None \<and> 0 < n \<and>
          (\<exists>e0. engine ?X (requests (ctx example_state) @ take (n - 1) (issued_since (ctx example_state) (ctx st')))
                   (issued_since (ctx example_state) (ctx st') ! (n - 1)) = Some e0 \<and>
                 e = Errorf (phase_message ?ps (n - 1)) e0)"
    by blast
  have not_ok: "err \<noteq> None"
  proof
    assume "err = None"
    with final have nlen: "n = length ?plan"
      and acc: "\<forall>i < n. engine ?X (requests (ctx example_state) @ take i (issued_since (ctx example_state) (ctx st')))
                      (issued_since (ctx example_state) (ctx st') ! i) = None"
      by simp_all
    from nlen have "2 < n" by (simp add: plan)
    with acc have "engine ?X (requests (ctx example_state) @ take 2 (issued_since (ctx example_state) (ctx st')))
                      (issued_since (ctx example_state) (ctx st') ! 2) = None"
      by blast
    then have "engine ?X (requests (ctx example_state) @ take 2 (take n ?plan)) (take n ?plan ! 2) = None"
      unfolding since .
    then show False by (simp add: nlen plan eng)
  qed
  then obtain e where e: "err = Some e" by auto
  with final obtain e0 where st: "stack = None" and pos: "0 < n"
    and rej: "engine ?X (requests (ctx example_state) @ take (n - 1) (take n ?plan)) (take n ?plan ! (n - 1)) = Some e0"
    and wrap: "e = Errorf (phase_message ?ps (n - 1)) e0"
    unfolding since by auto
  from n pos have "n = 1 \<or> n = 2 \<or> n = 3 \<or> n = 4 \<or> n = 5"
    by (simp add: plan) arith
  with rej have n3: "n = 3" and e0: "e0 = ExternalError ''AccessDenied''"
    by (auto simp add: plan eng)
  from wrap have "e = Errorf ''failed to create IAM role: '' (ExternalError ''AccessDenied'')"
    unfolding n3 e0 using msg by simp
  with run st e have "NewAgentCoreStack ?X example_state existing_vpc_config =
      (st', Return (None, Some (Errorf ''failed to create IAM role: '' (ExternalError ''AccessDenied''))))"
    by simp
  moreover have "map rname (issued_since (ctx example_state) (ctx st')) =
      [''sg'', ''sg-self-ingress'', ''execution-role'']"
    unfolding since n3 by (simp add: plan)
  ultimately show ?thesis
    using D V vpc iam obs by auto
qed

subsection \<open>Claim C8: log retention\<close>

lemma plan_log_group:
  assumes "r \<in> set (concat (map snd (stack_phases n vpc iam obs agents base)))"
    and "rtype r = ''cloudwatch.LogGroup''"
  shows "EnableCloudWatchLogs obs \<and>
         r = req_log_group n (if LogRetentionDays obs = 0 then 30 else LogRetentionDays obs)
               (merged_tags base (PString (n @ ''-logs'')))"
  using assms
  by (auto simp add: stack_phases_def vpc_plan_def sg_plan_def iam_plan_def log_plan_def
      split: if_splits)

lemma log_group_last:
  "EnableCloudWatchLogs obs \<Longrightarrow>
   last (concat (map snd (stack_phases n vpc iam obs agents base))) =
     req_log_group n (if LogRetentionDays obs = 0 then 30 else LogRetentionDays obs)
       (merged_tags base (PString (n @ ''-logs'')))"
  by (simp add: stack_phases_def vpc_plan_def sg_plan_def iam_plan_def log_plan_def)

lemma stack_phases_nonempty: "concat (map snd (stack_phases n vpc iam obs agents base)) \<noteq> []"
  by (simp add: stack_phases_def sg_plan_def)

text \<open>
  C8. For every configuration with CloudWatch logging enabled (defaulted, valid, its
  sections present), every log group registration the translation issues has the
  configured \<open>LogRetentionDays\<close> as its retention when that is not 0, and 30 when it
  is 0, so its retention is never 0; and a translation that succeeds has issued that
  registration.
\<close>

theorem log_retention:
  assumes "ApplyDefaults X (heap st) c0 = (h0, cfg)"
    and "Validate X h0 cfg = None"
    and "VPC cfg = Some vpc"
    and "IAM cfg = Some p"
    and "Observability cfg = Some obs"
    and "EnableCloudWatchLogs obs"
  shows "\<exists>st' stack err.
           NewAgentCoreStack X st c0 = (st', Return (stack, err)) \<and>
           (\<forall>r \<in> set (issued_since (ctx st) (ctx st')).
              rtype r = ''cloudwatch.LogGroup'' \<longrightarrow>
                map_of (args r) ''RetentionInDays'' =
                  Some (PInt (if LogRetentionDays obs = 0 then 30 else LogRetentionDays obs)) \<and>
                map_of (args r) ''RetentionInDays'' \<noteq> Some (PInt 0)) \<and>
           (err = None \<longrightarrow>
              (\<exists>r \<in> set (issued_since (ctx st) (ctx st')). rtype r = ''cloudwatch.LogGroup''))"
proof -
  let ?base = "base_tags (strmap_entries h0 (Tags cfg))"
  let ?T = "translation X (ctx st) cfg vpc (iamcfgs h0 p) obs ?base"
  let ?ps = "stack_phases (StackName cfg) vpc (iamcfgs h0 p) obs (Agents cfg) ?base"
  let ?plan = "concat (map snd ?ps)"
  let ?lg = "req_log_group (StackName cfg) (if LogRetentionDays obs = 0 then 30 else LogRetentionDays obs)
               (merged_tags ?base (PString (StackName cfg @ ''-logs'')))"
  from NewAgentCoreStack_translation [OF assms(1-5)] obtain h' where
    run: "NewAgentCoreStack X st c0 = (\<lparr>ctx = fst ?T, heap = h'\<rparr>, Return (snd ?T))" ..
  from translation_outcome [of X "ctx st" cfg vpc "iamcfgs h0 p" obs ?base] obtain n c' where
    out: "phases_outcome X (ctx st) ?ps c' (snd (snd ?T)) n"
    and req: "requests (fst ?T) = requests c'"
    by blast
  from out have pre: "requests c' = requests (ctx st) @ take n ?plan"
    and full: "snd (snd ?T) = None \<Longrightarrow> n = length ?plan"
    by (auto simp add: phases_outcome_def issued_prefix_def split: option.splits)
  have since: "issued_since (ctx st) (fst ?T) = take n ?plan"
    by (simp add: issued_since_def req pre)
  have ret: "map_of (args ?lg) ''RetentionInDays'' =
      Some (PInt (if LogRetentionDays obs = 0 then 30 else LogRetentionDays obs))"
    by (simp add: req_log_group_def)
  have all: "\<forall>r \<in> set (take n ?plan). rtype r = ''cloudwatch.LogGroup'' \<longrightarrow>
      map_of (args r) ''RetentionInDays'' =
        Some (PInt (if LogRetentionDays obs = 0 then 30 else LogRetentionDays obs)) \<and>
      map_of (args r) ''RetentionInDays'' \<noteq> Some (PInt 0)"
  proof (intro ballI impI)
    fix r assume "r \<in> set (take n ?plan)" and t: "rtype r = ''cloudwatch.LogGroup''"
    then have "r \<in> set ?plan" by (auto dest: in_set_takeD)
    from plan_log_group [OF this t] have "r = ?lg" by simp
    with ret show "map_of (args r) ''RetentionInDays'' =
        Some (PInt (if LogRetentionDays obs = 0 then 30 else LogRetentionDays obs)) \<and>
      map_of (args r) ''RetentionInDays'' \<noteq> Some (PInt 0)"
      by simp
  qed
  have ex: "\<exists>r \<in> set (take n ?plan). rtype r = ''cloudwatch.LogGroup''" if "snd (snd ?T) = None"
  proof -
    from full [OF that] have "take n ?plan = ?plan" by simp
    moreover have "last ?plan \<in> set ?plan"
      by (rule last_in_set) (rule stack_phases_nonempty)
    moreover have "rtype (last ?plan) = ''cloudwatch.LogGroup''"
      using assms(6) by (simp add: log_group_last)
    ultimately show ?thesis by auto
  qed
  show ?thesis
    using run all ex
    by (intro exI [of _ "\<lparr>ctx = fst ?T, heap = h'\<rparr>"] exI [of _ "fst (snd ?T)"] exI [of _ "snd (snd ?T)"])
      (simp add: since)
qed

text \<open>At the example configuration, whose retention is 0: the translation succeeds and
  registers the log group with a retention of 30 days.\<close>

theorem log_retention_witness:
  "ApplyDefaults example_externals (heap example_state) example_config = (example_heap, example_config) \<and>
   Validate example_externals example_heap example_config = None \<and>
   VPC example_config \<noteq> None \<and> IAM example_config = Some 1 \<and>
   map_option EnableCloudWatchLogs (Observability example_config) = Some True \<and>
   map_option LogRetentionDays (Observability example_config) = Some 0 \<and>
   (\<exists>st' stack.
      NewAgentCoreStack example_externals example_state example_config = (st', Return (stack, None)) \<and>
      (\<exists>r \<in> set (issued_since (ctx example_state) (ctx st')).
         rtype r = ''cloudwatch.LogGroup'' \<and> map_of (args r) ''RetentionInDays'' = Some (PInt 30)))"
proof -
  let ?vpc = "\<lparr>CreateVPC = True, VPCCidr = ''10.0.0.0/16'', MaxAZs = 2,
               EnableVPCEndpoints = True, VPCID = [], SubnetIDs = []\<rparr>"
  let ?obs = "\<lparr>Provider = ''cloudwatch'', Project = [], APIKeySecretARN = [],
               EnableCloudWatchLogs = True, LogRetentionDays = 0\<rparr>"
  have D: "ApplyDefaults example_externals (heap example_state) example_config = (example_heap, example_config)"
    by (simp add: example_run)
  have V: "Validate example_externals example_heap example_config = None"
    by (simp add: example_run)
  have vpc: "VPC example_config = Some ?vpc" and iam: "IAM example_config = Some 1"
    and obs: "Observability example_config = Some ?obs"
    by (simp_all add: example_config_def)
  have en: "EnableCloudWatchLogs ?obs" by simp
  from log_retention [OF D V vpc iam obs en] obtain st' stack err where
    run: "NewAgentCoreStack example_externals example_state example_config = (st', Return (stack, err))"
    and all: "\<forall>r \<in> set (issued_since (ctx example_state) (ctx st')).
        rtype r = ''cloudwatch.LogGroup'' \<longrightarrow>
          map_of (args r) ''RetentionInDays'' =
            Some (PInt (if LogRetentionDays ?obs = 0 then 30 else LogRetentionDays ?obs)) \<and>
          map_of (args r) ''RetentionInDays'' \<noteq> Some (PInt 0)"
    and ex: "err = None \<longrightarrow>
        (\<exists>r \<in> set (issued_since (ctx example_state) (ctx st')). rtype r = ''cloudwatch.LogGroup'')"
    by blast
  let ?T = "translation example_externals (ctx example_state) example_config ?vpc
              (iamcfgs example_heap 1) ?obs
              (base_tags (strmap_entries example_heap (Tags example_config)))"
  from NewAgentCoreStack_translation [OF D V vpc iam obs] run
  have "(stack, err) = snd ?T"
    by auto
  then have "err = snd (snd ?T)"
    by (metis snd_conv)
  then have err: "err = None"
    by (simp add: translation_accepting example_run)
  with ex obtain r where r: "r \<in> set (issued_since (ctx example_state) (ctx st'))"
    "rtype r = ''cloudwatch.LogGroup''"
    by blast
  with all have "map_of (args r) ''RetentionInDays'' = Some (PInt 30)"
    by auto
  with r run err D V vpc iam obs show ?thesis
    by auto
qed

subsection \<open>Claim C3: exported outputs\<close>

lemma phases_outcome_accepting:
  "\<forall>l r. engine X l r = None \<Longrightarrow> phases_outcome X c ps c' err n \<Longrightarrow> err = None"
  by (cases err) (auto simp add: phases_outcome_def issued_prefix_def split: option.splits)

lemma phases_outcome_exports: "phases_outcome X c ps c' err n \<Longrightarrow> exports c' = exports c"
  by (simp add: phases_outcome_def issued_prefix_def)

lemma exportOutputs_translated:
  "exports (fst (exportOutputs c (translated_stack cfg vpc obs))) =
     exports c @
     (if CreateVPC vpc
      then [(''vpcId'', PID ''vpc''), (''privateSubnetId'', PID ''private-subnet'')] else []) @
     [(''securityGroupId'', PID ''sg''), (''executionRoleArn'', PAttr ''execution-role'' ''Arn'')] @
     (if EnableCloudWatchLogs obs then [(''logGroupName'', PAttr ''log-group'' ''Name'')] else []) @
     [(''agentCount'', PInt (int (length (Agents cfg))))]"
  by (simp add: exportOutputs_def Export_def translated_stack_def)

lemma Outputs_translated:
  "Outputs (snd (exportOutputs c (translated_stack cfg vpc obs))) =
     (if CreateVPC vpc
      then [(''vpcId'', PID ''vpc''), (''privateSubnetId'', PID ''private-subnet'')] else []) @
     [(''securityGroupId'', PID ''sg''), (''executionRoleArn'', PAttr ''execution-role'' ''Arn'')] @
     (if EnableCloudWatchLogs obs then [(''logGroupName'', PAttr ''log-group'' ''Name'')] else [])"
  by (simp add: exportOutputs_def Export_def translated_stack_def)

lemma example_succeeds:
  assumes "VPC cfg = Some vpc" and "IAM cfg = Some p" and "Observability cfg = Some obs"
    and "StackName cfg \<noteq> []"
  shows "\<exists>st' c'.
           NewAgentCoreStack example_externals example_state cfg =
             (st', Return (Some (snd (exportOutputs c' (translated_stack cfg vpc obs))), None)) \<and>
           ctx st' = fst (exportOutputs c' (translated_stack cfg vpc obs)) \<and>
           exports c' = []"
proof -
  have D: "ApplyDefaults example_externals (heap example_state) cfg = (example_heap, cfg)"
    by (simp add: example_run)
  have V: "Validate example_externals example_heap cfg = None"
    using assms(4) by (simp add: example_externals_def)
  from NewAgentCoreStack_outcome [OF D V assms(1-3)] obtain st' stack err n c' where
    run: "NewAgentCoreStack example_externals example_state cfg = (st', Return (stack, err))"
    and out: "phases_outcome example_externals (ctx example_state)
                (stack_phases (StackName cfg) vpc (iamcfgs example_heap p) obs (Agents cfg)
                   (base_tags (strmap_entries example_heap (Tags cfg)))) c' err n"
    and res: "case err of
                Some e \<Rightarrow> stack = None \<and> ctx st' = c'
              | None \<Rightarrow> stack = Some (snd (exportOutputs c' (translated_stack cfg vpc obs))) \<and>
                         ctx st' = fst (exportOutputs c' (translated_stack cfg vpc obs))"
    by blast
  from phases_outcome_accepting [OF example_run(4) out] have err: "err = None" .
  from phases_outcome_exports [OF out] have "exports c' = []"
    by (simp add: example_run)
  with run res err show ?thesis by auto
qed

text \<open>
  C3, as stated, fails: with an existing VPC and logging disabled the translation
  succeeds and exports neither \<open>vpcId\<close> nor \<open>privateSubnetId\<close> nor \<open>logGroupName\<close>.
\<close>

theorem all_outputs_exported_counterexample:
  "succeeded (NewAgentCoreStack example_externals example_state existing_vpc_config) \<and>
   exported_names (NewAgentCoreStack example_externals example_state existing_vpc_config) =
     [''securityGroupId'', ''executionRoleArn'', ''agentCount''] \<and>
   ''vpcId'' \<notin> set (exported_names (NewAgentCoreStack example_externals example_state existing_vpc_config))"
proof -
  let ?vpc = "\<lparr>CreateVPC = False, VPCCidr = [], MaxAZs = 0, EnableVPCEndpoints = False,
               VPCID = ''vpc-0abc'', SubnetIDs = [''subnet-1'']\<rparr>"
  let ?obs = "\<lparr>Provider = ''none'', Project = [], APIKeySecretARN = [],
               EnableCloudWatchLogs = False, LogRetentionDays = 0\<rparr>"
  have "VPC existing_vpc_config = Some ?vpc" "IAM existing_vpc_config = Some 1"
    "Observability existing_vpc_config = Some ?obs" "StackName existing_vpc_config \<noteq> []"
    by (simp_all add: existing_vpc_config_def example_config_def)
  from example_succeeds [OF this] obtain st' c' where
    "NewAgentCoreStack example_externals example_state existing_vpc_config =
       (st', Return (Some (snd (exportOutputs c' (translated_stack existing_vpc_config ?vpc ?obs))), None))"
    and "ctx st' = fst (exportOutputs c' (translated_stack existing_vpc_config ?vpc ?obs))"
    and "exports c' = []"
    by blast
  then show ?thesis
    by (simp add: succeeded_def exported_names_def exportOutputs_translated)
qed

text \<open>
  C3, amended. After every successful translation (of a defaulted, valid configuration
  whose sections are present) \<open>securityGroupId\<close>, \<open>executionRoleArn\<close> and \<open>agentCount\<close>
  are exported, \<open>agentCount\<close> being the number of agents of the defaulted
  configuration; \<open>vpcId\<close> and \<open>privateSubnetId\<close> are exported exactly when \<open>createVPC\<close>
  is true, and \<open>logGroupName\<close> exactly when CloudWatch logs are enabled. The stack's
  \<open>Outputs\<close> map holds the same entries but \<open>agentCount\<close>.
\<close>

theorem outputs_exported:
  assumes "ApplyDefaults X (heap st) c0 = (h0, cfg)"
    and "Validate X h0 cfg = None"
    and "VPC cfg = Some vpc"
    and "IAM cfg = Some p"
    and "Observability cfg = Some obs"
    and "NewAgentCoreStack X st c0 = (st', Return (Some stack, None))"
  shows "exports (ctx st') =
           exports (ctx st) @
           (if CreateVPC vpc
            then [(''vpcId'', PID ''vpc''), (''privateSubnetId'', PID ''private-subnet'')] else []) @
           [(''securityGroupId'', PID ''sg''), (''executionRoleArn'', PAttr ''execution-role'' ''Arn'')] @
           (if EnableCloudWatchLogs obs then [(''logGroupName'', PAttr ''log-group'' ''Name'')] else []) @
           [(''agentCount'', PInt (int (length (Agents cfg))))] \<and>
         Outputs stack =
           (if CreateVPC vpc
            then [(''vpcId'', PID ''vpc''), (''privateSubnetId'', PID ''private-subnet'')] else []) @
           [(''securityGroupId'', PID ''sg''), (''executionRoleArn'', PAttr ''execution-role'' ''Arn'')] @
           (if EnableCloudWatchLogs obs then [(''logGroupName'', PAttr ''log-group'' ''Name'')] else [])"
proof -
  from NewAgentCoreStack_outcome [OF assms(1-5)] obtain st'' stack' err n c' where
    run: "NewAgentCoreStack X st c0 = (st'', Return (stack', err))"
    and out: "phases_outcome X (ctx st)
                (stack_phases (StackName cfg) vpc (iamcfgs h0 p) obs (Agents cfg)
                   (base_tags (strmap_entries h0 (Tags cfg)))) c' err n"
    and res: "case err of
                Some e \<Rightarrow> stack' = None \<and> ctx st'' = c'
              | None \<Rightarrow> stack' = Some (snd (exportOutputs c' (translated_stack cfg vpc obs))) \<and>
                         ctx st'' = fst (exportOutputs c' (translated_stack cfg vpc obs))"
    by blast
  from run assms(6) have eq: "st'' = st'" "stack' = Some stack" "err = None" by simp_all
  from res eq have stack: "stack = snd (exportOutputs c' (translated_stack cfg vpc obs))"
    and ctx: "ctx st' = fst (exportOutputs c' (translated_stack cfg vpc obs))"
    by simp_all
  from phases_outcome_exports [OF out] have "exports c' = exports (ctx st)" .
  then show ?thesis
    unfolding stack ctx exportOutputs_translated Outputs_translated by simp
qed

text \<open>At the example configuration, which creates a VPC and enables logging, all six
  names are exported.\<close>

theorem outputs_exported_witness:
  "ApplyDefaults example_externals (heap example_state) example_config = (example_heap, example_config) \<and>
   Validate example_externals example_heap example_config = None \<and>
   map_option CreateVPC (VPC example_config) = Some True \<and> IAM example_config = Some 1 \<and>
   map_option EnableCloudWatchLogs (Observability example_config) = Some True \<and>
   (\<exists>st' stack.
      NewAgentCoreStack example_externals example_state example_config = (st', Return (Some stack, None)) \<and>
      map fst (exports (ctx st')) =
        [''vpcId'', ''privateSubnetId'', ''securityGroupId'', ''executionRoleArn'', ''logGroupName'',
         ''agentCount''] \<and>
      map_of (exports (ctx st')) ''agentCount'' = Some (PInt 1))"
proof -
  let ?vpc = "\<lparr>CreateVPC = True, VPCCidr = ''10.0.0.0/16'', MaxAZs = 2,
               EnableVPCEndpoints = True, VPCID = [], SubnetIDs = []\<rparr>"
  let ?obs = "\<lparr>Provider = ''cloudwatch'', Project = [], APIKeySecretARN = [],
               EnableCloudWatchLogs = True, LogRetentionDays = 0\<rparr>"
  have D: "ApplyDefaults example_externals (heap example_state) example_config = (example_heap, example_config)"
    by (simp add: example_run)
  have V: "Validate example_externals example_heap example_config = None"
    by (simp add: example_run)
  have vpc: "VPC example_config = Some ?vpc" and iam: "IAM example_config = Some 1"
    and obs: "Observability example_config = Some ?obs" and name: "StackName example_config \<noteq> []"
    by (simp_all add: example_config_def)
  from example_succeeds [OF vpc iam obs name] obtain st' stack where
    run: "NewAgentCoreStack example_externals example_state example_config = (st', Return (Some stack, None))"
    by blast
  from outputs_exported [OF D V vpc iam obs run]
  have "exports (ctx st') =
      [(''vpcId'', PID ''vpc''), (''privateSubnetId'', PID ''private-subnet''),
       (''securityGroupId'', PID ''sg''), (''executionRoleArn'', PAttr ''execution-role'' ''Arn''),
       (''logGroupName'', PAttr ''log-group'' ''Name''),
       (''agentCount'', PInt (int (length (Agents example_config))))]"
    by (simp add: example_run)
  then have "map fst (exports (ctx st')) =
      [''vpcId'', ''privateSubnetId'', ''securityGroupId'', ''executionRoleArn'', ''logGroupName'',
       ''agentCount'']"
    and "map_of (exports (ctx st')) ''agentCount'' = Some (PInt 1)"
    by (simp_all add: example_config_def)
  with run D V vpc iam obs show ?thesis by auto
qed

subsection \<open>Claim C4: the createVPC branch\<close>

lemma plan_head:
  "hd (concat (map snd (stack_phases n vpc iam obs agents base))) =
     (if CreateVPC vpc then req_vpc (VPCCidr vpc) (merged_tags base (PString (n @ ''-vpc'')))
      else req_sg n (if VPCID vpc \<noteq> [] then PString (VPCID vpc) else PUnset)
             (merged_tags base (PString (n @ ''-sg''))))"
  by (simp add: stack_phases_def vpc_plan_def sg_plan_def)

lemma plan_network:
  assumes "r \<in> set (concat (map snd (stack_phases n vpc iam obs agents base)))"
    and "rtype r \<in> set network_rtypes"
  shows "CreateVPC vpc"
  using assms
  by (auto simp add: stack_phases_def vpc_plan_def sg_plan_def iam_plan_def log_plan_def
      network_rtypes_def split: if_splits)

lemma plan_security_group:
  assumes "r \<in> set (concat (map snd (stack_phases n vpc iam obs agents base)))"
    and "rtype r = ''ec2.SecurityGroup''"
  shows "map_of (args r) ''VpcId'' =
           Some (if CreateVPC vpc then PID ''vpc''
                 else if VPCID vpc \<noteq> [] then PString (VPCID vpc) else PUnset)"
  using assms
  by (auto simp add: stack_phases_def vpc_plan_def sg_plan_def iam_plan_def log_plan_def
      req_sg_def split: if_splits)

lemma NewAgentCoreStack_issued:
  assumes "ApplyDefaults X (heap st) c0 = (h0, cfg)"
    and "Validate X h0 cfg = None"
    and "VPC cfg = Some vpc"
    and "IAM cfg = Some p"
    and "Observability cfg = Some obs"
  shows "\<exists>st' stack err n.
           NewAgentCoreStack X st c0 = (st', Return (stack, err)) \<and>
           0 < n \<and>
           issued_since (ctx st) (ctx st') =
             take n (concat (map snd (stack_phases (StackName cfg) vpc (iamcfgs h0 p) obs (Agents cfg)
                                        (base_tags (strmap_entries h0 (Tags cfg)))))) \<and>
           (err = None \<longrightarrow>
              issued_since (ctx st) (ctx st') =
                concat (map snd (stack_phases (StackName cfg) vpc (iamcfgs h0 p) obs (Agents cfg)
                                   (base_tags (strmap_entries h0 (Tags cfg))))))"
proof -
  let ?ps = "stack_phases (StackName cfg) vpc (iamcfgs h0 p) obs (Agents cfg)
               (base_tags (strmap_entries h0 (Tags cfg)))"
  let ?plan = "concat (map snd ?ps)"
  from NewAgentCoreStack_outcome [OF assms] obtain st' stack err n c' where
    run: "NewAgentCoreStack X st c0 = (st', Return (stack, err))"
    and out: "phases_outcome X (ctx st) ?ps c' err n"
    and req: "requests (ctx st') = requests c'"
    by blast
  from out have pre: "requests c' = requests (ctx st) @ take n ?plan"
    by (simp add: phases_outcome_def issued_prefix_def)
  have since: "issued_since (ctx st) (ctx st') = take n ?plan"
    by (simp add: issued_since_def req pre)
  have pos: "0 < n"
  proof (cases err)
    case None
    with out have "n = length ?plan" by (simp add: phases_outcome_def issued_prefix_def)
    with stack_phases_nonempty [of "StackName cfg" vpc "iamcfgs h0 p" obs "Agents cfg"
        "base_tags (strmap_entries h0 (Tags cfg))"]
    show ?thesis by simp
  next
    case (Some e)
    with out show ?thesis by (simp add: phases_outcome_def issued_prefix_def split: option.splits)
  qed
  have full: "err = None \<longrightarrow> issued_since (ctx st) (ctx st') = ?plan"
  proof
    assume "err = None"
    with out have "n = length ?plan" by (simp add: phases_outcome_def issued_prefix_def)
    with since show "issued_since (ctx st) (ctx st') = ?plan" by simp
  qed
  from run pos since full show ?thesis by blast
qed

text \<open>
  C4. For every defaulted, valid configuration whose sections are present, the
  translation issues a network registration if and only if \<open>createVPC\<close> is true. When it
  is true the first registration is the VPC's, and the security group is attached to the
  new VPC. When it is false, the first registration is the security group's, attached to
  the configured \<open>VPCID\<close> (left unset when that is the empty string). On the builder,
  \<open>WithNewVPC\<close> stores a \<open>VPCConfig\<close> with \<open>CreateVPC\<close> true, and \<open>WithExistingVPC\<close>
  one with \<open>CreateVPC\<close> false and the given identifiers.
\<close>

theorem createVPC_branch:
  assumes "ApplyDefaults X (heap st) c0 = (h0, cfg)"
    and "Validate X h0 cfg = None"
    and "VPC cfg = Some vpc"
    and "IAM cfg = Some p"
    and "Observability cfg = Some obs"
  shows "\<exists>st' res.
           NewAgentCoreStack X st c0 = (st', Return res) \<and>
           issued_since (ctx st) (ctx st') \<noteq> [] \<and>
           ((\<exists>r \<in> set (issued_since (ctx st) (ctx st')). rtype r \<in> set network_rtypes) \<longleftrightarrow> CreateVPC vpc) \<and>
           rtype (hd (issued_since (ctx st) (ctx st'))) =
             (if CreateVPC vpc then ''ec2.Vpc'' else ''ec2.SecurityGroup'') \<and>
           (\<forall>r \<in> set (issued_since (ctx st) (ctx st')).
              rtype r = ''ec2.SecurityGroup'' \<longrightarrow>
                map_of (args r) ''VpcId'' =
                  Some (if CreateVPC vpc then PID ''vpc''
                        else if VPCID vpc \<noteq> [] then PString (VPCID vpc) else PUnset)) \<and>
           map_option CreateVPC (VPC (config (stackbuilders (fst (WithNewVPC h b cidr maxAZs)) b))) = Some True \<and>
           VPC (config (stackbuilders (fst (WithExistingVPC h b vpcID subnetIDs)) b)) =
             Some \<lparr>CreateVPC = False, VPCCidr = [], MaxAZs = 0, EnableVPCEndpoints = False,
                   VPCID = vpcID, SubnetIDs = subnetIDs\<rparr>"
proof -
  let ?ps = "stack_phases (StackName cfg) vpc (iamcfgs h0 p) obs (Agents cfg)
               (base_tags (strmap_entries h0 (Tags cfg)))"
  let ?plan = "concat (map snd ?ps)"
  from NewAgentCoreStack_issued [OF assms] obtain st' stack err n where
    run: "NewAgentCoreStack X st c0 = (st', Return (stack, err))"
    and pos: "0 < n"
    and since: "issued_since (ctx st) (ctx st') = take n ?plan"
    by blast
  have ne: "?plan \<noteq> []" by (rule stack_phases_nonempty)
  from pos ne have nonempty: "take n ?plan \<noteq> []" by simp
  from pos ne have hd: "hd (take n ?plan) = hd ?plan" by (cases ?plan) (simp_all add: take_Suc_conv_app_nth)
  have hd_type: "rtype (hd ?plan) = (if CreateVPC vpc then ''ec2.Vpc'' else ''ec2.SecurityGroup'')"
    by (simp add: plan_head)
  have sub: "r \<in> set ?plan" if "r \<in> set (take n ?plan)" for r
    using that by (rule in_set_takeD)
  have net: "(\<exists>r \<in> set (take n ?plan). rtype r \<in> set network_rtypes) \<longleftrightarrow> CreateVPC vpc"
  proof
    assume "\<exists>r \<in> set (take n ?plan). rtype r \<in> set network_rtypes"
    then obtain r where "r \<in> set ?plan" "rtype r \<in> set network_rtypes" using sub by blast
    then show "CreateVPC vpc" by (rule plan_network)
  next
    assume c: "CreateVPC vpc"
    from nonempty have "hd (take n ?plan) \<in> set (take n ?plan)" by (rule hd_in_set)
    moreover from c have "rtype (hd (take n ?plan)) \<in> set network_rtypes"
      by (simp add: hd hd_type network_rtypes_def)
    ultimately show "\<exists>r \<in> set (take n ?plan). rtype r \<in> set network_rtypes" by blast
  qed
  have sg: "\<forall>r \<in> set (take n ?plan).
      rtype r = ''ec2.SecurityGroup'' \<longrightarrow>
        map_of (args r) ''VpcId'' =
          Some (if CreateVPC vpc then PID ''vpc''
                else if VPCID vpc \<noteq> [] then PString (VPCID vpc) else PUnset)"
    using sub plan_security_group by blast
  have b1: "map_option CreateVPC (VPC (config (stackbuilders (fst (WithNewVPC h b cidr maxAZs)) b))) = Some True"
    by (simp add: WithNewVPC_def set_config_def)
  have b2: "VPC (config (stackbuilders (fst (WithExistingVPC h b vpcID subnetIDs)) b)) =
      Some \<lparr>CreateVPC = False, VPCCidr = [], MaxAZs = 0, EnableVPCEndpoints = False,
            VPCID = vpcID, SubnetIDs = subnetIDs\<rparr>"
    by (simp add: WithExistingVPC_def set_config_def)
  show ?thesis
  proof (intro exI conjI)
    show "NewAgentCoreStack X st c0 = (st', Return (stack, err))" by (rule run)
    show "issued_since (ctx st) (ctx st') \<noteq> []" unfolding since by (rule nonempty)
    show "(\<exists>r \<in> set (issued_since (ctx st) (ctx st')). rtype r \<in> set network_rtypes) \<longleftrightarrow> CreateVPC vpc"
      unfolding since by (rule net)
    show "rtype (hd (issued_since (ctx st) (ctx st'))) =
        (if CreateVPC vpc then ''ec2.Vpc'' else ''ec2.SecurityGroup'')"
      unfolding since hd by (rule hd_type)
    show "\<forall>r \<in> set (issued_since (ctx st) (ctx st')).
        rtype r = ''ec2.SecurityGroup'' \<longrightarrow>
          map_of (args r) ''VpcId'' =
            Some (if CreateVPC vpc then PID ''vpc''
                  else if VPCID vpc \<noteq> [] then PString (VPCID vpc) else PUnset)"
      unfolding since by (rule sg)
    show "map_option CreateVPC (VPC (config (stackbuilders (fst (WithNewVPC h b cidr maxAZs)) b))) = Some True"
      by (rule b1)
    show "VPC (config (stackbuilders (fst (WithExistingVPC h b vpcID subnetIDs)) b)) =
        Some \<lparr>CreateVPC = False, VPCCidr = [], MaxAZs = 0, EnableVPCEndpoints = False,
              VPCID = vpcID, SubnetIDs = subnetIDs\<rparr>"
      by (rule b2)
  qed
qed

text \<open>At the configuration with the existing VPC \<open>vpc-0abc\<close>: the first registration is
  the security group, attached to that VPC, and no network registration is issued.\<close>

theorem createVPC_branch_witness:
  "ApplyDefaults example_externals (heap example_state) existing_vpc_config =
     (example_heap, existing_vpc_config) \<and>
   Validate example_externals example_heap existing_vpc_config = None \<and>
   map_option CreateVPC (VPC existing_vpc_config) = Some False \<and>
   map_option VPCID (VPC existing_vpc_config) = Some ''vpc-0abc'' \<and>
   IAM existing_vpc_config = Some 1 \<and> Observability existing_vpc_config \<noteq> None \<and>
   (\<exists>st' res.
      NewAgentCoreStack example_externals example_state existing_vpc_config = (st', Return res) \<and>
      rtype (hd (issued_since (ctx example_state) (ctx st'))) = ''ec2.SecurityGroup'' \<and>
      map_of (args (hd (issued_since (ctx example_state) (ctx st')))) ''VpcId'' = Some (PString ''vpc-0abc'') \<and>
      \<not> (\<exists>r \<in> set (issued_since (ctx example_state) (ctx st')). rtype r \<in> set network_rtypes))"
proof -
  let ?vpc = "\<lparr>CreateVPC = False, VPCCidr = [], MaxAZs = 0, EnableVPCEndpoints = False,
               VPCID = ''vpc-0abc'', SubnetIDs = [''subnet-1'']\<rparr>"
  let ?obs = "\<lparr>Provider = ''none'', Project = [], APIKeySecretARN = [],
               EnableCloudWatchLogs = False, LogRetentionDays = 0\<rparr>"
  have D: "ApplyDefaults example_externals (heap example_state) existing_vpc_config =
             (example_heap, existing_vpc_config)"
    by (simp add: example_run)
  have V: "Validate example_externals example_heap existing_vpc_config = None"
    by (simp add: example_run)
  have vpc: "VPC existing_vpc_config = Some ?vpc" and iam: "IAM existing_vpc_config = Some 1"
    and obs: "Observability existing_vpc_config = Some ?obs"
    by (simp_all add: existing_vpc_config_def example_config_def)
  from createVPC_branch [OF D V vpc iam obs] obtain st' res where
    run: "NewAgentCoreStack example_externals example_state existing_vpc_config = (st', Return res)"
    and ne: "issued_since (ctx example_state) (ctx st') \<noteq> []"
    and net: "(\<exists>r \<in> set (issued_since (ctx example_state) (ctx st')). rtype r \<in> set network_rtypes) \<longleftrightarrow>
                CreateVPC ?vpc"
    and hd: "rtype (hd (issued_since (ctx example_state) (ctx st'))) =
               (if CreateVPC ?vpc then ''ec2.Vpc'' else ''ec2.SecurityGroup'')"
    and sg: "\<forall>r \<in> set (issued_since (ctx example_state) (ctx st')).
               rtype r = ''ec2.SecurityGroup'' \<longrightarrow>
                 map_of (args r) ''VpcId'' =
                   Some (if CreateVPC ?vpc then PID ''vpc''
                         else if VPCID ?vpc \<noteq> [] then PString (VPCID ?vpc) else PUnset)"
    by blast
  from hd have t: "rtype (hd (issued_since (ctx example_state) (ctx st'))) = ''ec2.SecurityGroup''"
    by simp
  from ne have "hd (issued_since (ctx example_state) (ctx st')) \<in> set (issued_since (ctx example_state) (ctx st'))"
    by (rule hd_in_set)
  with sg t have "map_of (args (hd (issued_since (ctx example_state) (ctx st')))) ''VpcId'' =
      Some (PString ''vpc-0abc'')"
    by auto
  moreover from net have
    "\<not> (\<exists>r \<in> set (issued_since (ctx example_state) (ctx st')). rtype r \<in> set network_rtypes)"
    by simp
  ultimately show ?thesis
    using run t D V vpc iam obs by auto
qed

subsection \<open>Claim C5: the Bedrock statement of the execution policy\<close>





lemma bedrock_statement_inject: "bedrock_statement a = bedrock_statement b \<longleftrightarrow> a = b"
  by (simp add: bedrock_statement_def)





subsection \<open>Claim C9: the tags of the registrations\<close>

lemma tags_of_req [simp]:
  "tags_of (req_vpc cidr t) = Some t"
  "tags_of (req_igw t) = Some t"
  "tags_of (req_public_subnet t) = Some t"
  "tags_of (req_private_subnet t) = Some t"
  "tags_of (req_nat_eip t) = Some t"
  "tags_of (req_nat t) = Some t"
  "tags_of (req_public_rt t) = Some t"
  "tags_of req_public_rta = None"
  "tags_of (req_private_rt t) = Some t"
  "tags_of req_private_rta = None"
  "tags_of (req_sg n v t) = Some t"
  "tags_of req_sg_self_ingress = None"
  "tags_of (req_execution_role n t) = Some t"
  "tags_of (req_execution_policy n pol) = None"
  "tags_of req_execution_policy_attachment = None"
  "tags_of (req_log_group n d t) = Some t"
  by (simp_all add: tags_of_def req_vpc_def req_igw_def req_public_subnet_def req_private_subnet_def
      req_nat_eip_def req_nat_def req_public_rt_def req_public_rta_def req_private_rt_def
      req_private_rta_def req_sg_def req_sg_self_ingress_def req_execution_role_def
      req_execution_policy_def req_execution_policy_attachment_def req_log_group_def)

lemma plan_tags:
  assumes "r \<in> set (concat (map snd (stack_phases n vpc iam obs agents base)))"
  shows "(rtype r \<in> set untagged_rtypes \<and> tags_of r = None) \<or>
         (rtype r \<notin> set untagged_rtypes \<and>
          (\<exists>suffix. tags_of r = Some (merged_tags base (PString (n @ suffix)))))"
  using assms
  by (auto simp add: stack_phases_def vpc_plan_def sg_plan_def iam_plan_def log_plan_def
      untagged_rtypes_def split: if_splits)

lemma tag_of_merged_base:
  assumes "distinct (map fst cfgtags)"
    and "tags_of r = Some (merged_tags (base_tags cfgtags) name)"
  shows "tag_of r k =
           (if k = ''Name'' then Some name
            else if k = ''ManagedBy'' then Some (PString ''agentkit-pulumi'')
            else map_option PString (map_of cfgtags k))"
  using assms
  by (simp add: tag_of_def map_of_merged_tags distinct_base_tags map_of_base_tags)

lemma example_issued:
  assumes "VPC cfg = Some vpc" and "IAM cfg = Some p" and "Observability cfg = Some obs"
    and "StackName cfg \<noteq> []"
  shows "issued_by (NewAgentCoreStack example_externals example_state cfg) =
           concat (map snd (stack_phases (StackName cfg) vpc (iamcfgs example_heap p) obs (Agents cfg)
                              (base_tags (strmap_entries example_heap (Tags cfg)))))"
proof -
  have D: "ApplyDefaults example_externals (heap example_state) cfg = (example_heap, cfg)"
    by (simp add: example_run)
  have V: "Validate example_externals example_heap cfg = None"
    using assms(4) by (simp add: example_externals_def)
  from NewAgentCoreStack_outcome [OF D V assms(1-3)] obtain st' stack err n c' where
    run: "NewAgentCoreStack example_externals example_state cfg = (st', Return (stack, err))"
    and out: "phases_outcome example_externals (ctx example_state)
                (stack_phases (StackName cfg) vpc (iamcfgs example_heap p) obs (Agents cfg)
                   (base_tags (strmap_entries example_heap (Tags cfg)))) c' err n"
    and req: "requests (ctx st') = requests c'"
    by blast
  from phases_outcome_accepting [OF example_run(4) out] have err: "err = None" .
  with out show ?thesis
    by (simp add: issued_by_def issued_since_def run req phases_outcome_def issued_prefix_def)
qed

text \<open>
  C9, as stated, fails in its last part: a user-supplied tag \<open>Name\<close> is not passed
  through. The example configuration has the tag \<open>Name = mine\<close>; the VPC, the first
  registration of its translation, carries \<open>Name = my-agents-vpc\<close>. And not every
  registration carries a tag map: the eighth one, the route table association, has none.
\<close>

theorem tags_passed_through_counterexample:
  "map_of (strmap_entries example_heap (Tags example_config)) ''Name'' = Some ''mine'' \<and>
   rname (hd (issued_by (NewAgentCoreStack example_externals example_state example_config))) = ''vpc'' \<and>
   tag_of (hd (issued_by (NewAgentCoreStack example_externals example_state example_config))) ''Name'' =
     Some (PString ''my-agents-vpc'') \<and>
   rname (issued_by (NewAgentCoreStack example_externals example_state example_config) ! 7) = ''public-rta'' \<and>
   tags_of (issued_by (NewAgentCoreStack example_externals example_state example_config) ! 7) = None"
proof -
  let ?vpc = "\<lparr>CreateVPC = True, VPCCidr = ''10.0.0.0/16'', MaxAZs = 2,
               EnableVPCEndpoints = True, VPCID = [], SubnetIDs = []\<rparr>"
  let ?obs = "\<lparr>Provider = ''cloudwatch'', Project = [], APIKeySecretARN = [],
               EnableCloudWatchLogs = True, LogRetentionDays = 0\<rparr>"
  have "VPC example_config = Some ?vpc" "IAM example_config = Some (Suc 0)"
    "Observability example_config = Some ?obs" "StackName example_config \<noteq> []"
    by (simp_all add: example_config_def)
  from example_issued [OF this]
  have plan: "issued_by (NewAgentCoreStack example_externals example_state example_config) =
      concat (map snd (stack_phases (StackName example_config) ?vpc (iamcfgs example_heap (Suc 0)) ?obs
                         (Agents example_config)
                         (base_tags (strmap_entries example_heap (Tags example_config)))))" .
  have name: "StackName example_config = ''my-agents''"
    by (simp add: example_config_def)
  have user: "map_of (strmap_entries example_heap (Tags example_config)) ''Name'' = Some ''mine''"
    by (simp add: strmap_entries_def example_config_def example_heap_def)
  have merged: "map_of (merged_tags (base_tags (strmap_entries example_heap (Tags example_config)))
                  (PString ''my-agents-vpc'')) ''Name'' = Some (PString ''my-agents-vpc'')"
    by (simp add: map_of_merged_tags distinct_base_tags)
  show ?thesis
    unfolding plan
    by (simp add: user merged name stack_phases_def vpc_plan_def tag_of_def)
qed

text \<open>
  C9, amended. For every defaulted, valid configuration whose sections are present
  (\<open>config.Tags\<close> is a Go map, so its keys are distinct), every registration of the
  translation that carries a tag map has \<open>ManagedBy = agentkit-pulumi\<close> in it, whatever
  \<open>config.Tags\<close> holds for \<open>ManagedBy\<close>; its \<open>Name\<close> tag is the stack name followed by
  a suffix of the resource, whatever \<open>config.Tags\<close> holds for \<open>Name\<close>; and every other
  key has exactly the value \<open>config.Tags\<close> gives it. The registrations that carry no tag
  map are those of the route table associations, the security group rule, the policy and
  the role policy attachment.
\<close>

theorem managed_by_tag:
  assumes "ApplyDefaults X (heap st) c0 = (h0, cfg)"
    and "Validate X h0 cfg = None"
    and "VPC cfg = Some vpc"
    and "IAM cfg = Some p"
    and "Observability cfg = Some obs"
    and "distinct (map fst (strmap_entries h0 (Tags cfg)))"
  shows "\<exists>st' res.
           NewAgentCoreStack X st c0 = (st', Return res) \<and>
           (\<forall>r \<in> set (issued_since (ctx st) (ctx st')).
              (tags_of r = None \<longleftrightarrow> rtype r \<in> set untagged_rtypes) \<and>
              (tags_of r \<noteq> None \<longrightarrow>
                 tag_of r ''ManagedBy'' = Some (PString ''agentkit-pulumi'') \<and>
                 (\<exists>suffix. tag_of r ''Name'' = Some (PString (StackName cfg @ suffix))) \<and>
                 (\<forall>k. k \<noteq> ''ManagedBy'' \<and> k \<noteq> ''Name'' \<longrightarrow>
                    tag_of r k = map_option PString (map_of (strmap_entries h0 (Tags cfg)) k))))"
proof -
  let ?tags = "strmap_entries h0 (Tags cfg)"
  let ?ps = "stack_phases (StackName cfg) vpc (iamcfgs h0 p) obs (Agents cfg) (base_tags ?tags)"
  let ?plan = "concat (map snd ?ps)"
  from NewAgentCoreStack_issued [OF assms(1-5)] obtain st' stack err n where
    run: "NewAgentCoreStack X st c0 = (st', Return (stack, err))"
    and since: "issued_since (ctx st) (ctx st') = take n ?plan"
    by blast
  have "\<forall>r \<in> set (issued_since (ctx st) (ctx st')).
      (tags_of r = None \<longleftrightarrow> rtype r \<in> set untagged_rtypes) \<and>
      (tags_of r \<noteq> None \<longrightarrow>
         tag_of r ''ManagedBy'' = Some (PString ''agentkit-pulumi'') \<and>
         (\<exists>suffix. tag_of r ''Name'' = Some (PString (StackName cfg @ suffix))) \<and>
         (\<forall>k. k \<noteq> ''ManagedBy'' \<and> k \<noteq> ''Name'' \<longrightarrow>
            tag_of r k = map_option PString (map_of ?tags k)))"
  proof
    fix r assume "r \<in> set (issued_since (ctx st) (ctx st'))"
    then have "r \<in> set ?plan" unfolding since by (rule in_set_takeD)
    from plan_tags [OF this] show
      "(tags_of r = None \<longleftrightarrow> rtype r \<in> set untagged_rtypes) \<and>
       (tags_of r \<noteq> None \<longrightarrow>
          tag_of r ''ManagedBy'' = Some (PString ''agentkit-pulumi'') \<and>
          (\<exists>suffix. tag_of r ''Name'' = Some (PString (StackName cfg @ suffix))) \<and>
          (\<forall>k. k \<noteq> ''ManagedBy'' \<and> k \<noteq> ''Name'' \<longrightarrow>
             tag_of r k = map_option PString (map_of ?tags k)))"
    proof
      assume "rtype r \<in> set untagged_rtypes \<and> tags_of r = None"
      then show ?thesis by simp
    next
      assume a: "rtype r \<notin> set untagged_rtypes \<and>
        (\<exists>suffix. tags_of r = Some (merged_tags (base_tags ?tags) (PString (StackName cfg @ suffix))))"
      then obtain suffix where
        t: "tags_of r = Some (merged_tags (base_tags ?tags) (PString (StackName cfg @ suffix)))"
        by blast
      note tag = tag_of_merged_base [OF assms(6) t]
      have "tag_of r ''Name'' = Some (PString (StackName cfg @ suffix))"
        by (simp add: tag)
      then have "\<exists>suffix. tag_of r ''Name'' = Some (PString (StackName cfg @ suffix))" ..
      with a t show ?thesis by (simp add: tag)
    qed
  qed
  with run show ?thesis by blast
qed

text \<open>At the example configuration, on the VPC registration.\<close>

theorem managed_by_tag_witness:
  "ApplyDefaults example_externals (heap example_state) example_config = (example_heap, example_config) \<and>
   Validate example_externals example_heap example_config = None \<and>
   VPC example_config \<noteq> None \<and> IAM example_config = Some 1 \<and> Observability example_config \<noteq> None \<and>
   distinct (map fst (strmap_entries example_heap (Tags example_config))) \<and>
   map_of (strmap_entries example_heap (Tags example_config)) ''Environment'' = Some ''production'' \<and>
   tags_of (hd (issued_by (NewAgentCoreStack example_externals example_state example_config))) \<noteq> None \<and>
   tag_of (hd (issued_by (NewAgentCoreStack example_externals example_state example_config))) ''ManagedBy'' =
     Some (PString ''agentkit-pulumi'') \<and>
   tag_of (hd (issued_by (NewAgentCoreStack example_externals example_state example_config))) ''Environment'' =
     Some (PString ''production'')"
proof -
  let ?vpc = "\<lparr>CreateVPC = True, VPCCidr = ''10.0.0.0/16'', MaxAZs = 2,
               EnableVPCEndpoints = True, VPCID = [], SubnetIDs = []\<rparr>"
  let ?obs = "\<lparr>Provider = ''cloudwatch'', Project = [], APIKeySecretARN = [],
               EnableCloudWatchLogs = True, LogRetentionDays = 0\<rparr>"
  let ?R = "NewAgentCoreStack example_externals example_state example_config"
  have D: "ApplyDefaults example_externals (heap example_state) example_config = (example_heap, example_config)"
    by (simp add: example_run)
  have V: "Validate example_externals example_heap example_config = None"
    by (simp add: example_run)
  have vpc: "VPC example_config = Some ?vpc" and iam: "IAM example_config = Some (Suc 0)"
    and obs: "Observability example_config = Some ?obs" and name: "StackName example_config \<noteq> []"
    by (simp_all add: example_config_def)
  have user: "strmap_entries example_heap (Tags example_config) =
      [(''Environment'', ''production''), (''Name'', ''mine'')]"
    by (simp add: strmap_entries_def example_config_def example_heap_def)
  have d: "distinct (map fst (strmap_entries example_heap (Tags example_config)))"
    by (simp add: user)
  from managed_by_tag [OF D V vpc iam obs d] obtain st' res where
    run: "?R = (st', Return res)"
    and all: "\<forall>r \<in> set (issued_since (ctx example_state) (ctx st')).
        (tags_of r = None \<longleftrightarrow> rtype r \<in> set untagged_rtypes) \<and>
        (tags_of r \<noteq> None \<longrightarrow>
           tag_of r ''ManagedBy'' = Some (PString ''agentkit-pulumi'') \<and>
           (\<exists>suffix. tag_of r ''Name'' = Some (PString (StackName example_config @ suffix))) \<and>
           (\<forall>k. k \<noteq> ''ManagedBy'' \<and> k \<noteq> ''Name'' \<longrightarrow>
              tag_of r k = map_option PString (map_of (strmap_entries example_heap (Tags example_config)) k)))"
    by blast
  have by_eq: "issued_by ?R = issued_since (ctx example_state) (ctx st')"
    by (simp add: issued_by_def run)
  have hd_in: "hd (issued_by ?R) \<in> set (issued_by ?R)" and hd_type: "rtype (hd (issued_by ?R)) = ''ec2.Vpc''"
    unfolding example_issued [OF vpc iam obs name]
    by (simp_all add: stack_phases_def vpc_plan_def)
  from all hd_in have h: "(tags_of (hd (issued_by ?R)) = None \<longleftrightarrow> rtype (hd (issued_by ?R)) \<in> set untagged_rtypes) \<and>
      (tags_of (hd (issued_by ?R)) \<noteq> None \<longrightarrow>
         tag_of (hd (issued_by ?R)) ''ManagedBy'' = Some (PString ''agentkit-pulumi'') \<and>
         (\<forall>k. k \<noteq> ''ManagedBy'' \<and> k \<noteq> ''Name'' \<longrightarrow>
            tag_of (hd (issued_by ?R)) k =
              map_option PString (map_of (strmap_entries example_heap (Tags example_config)) k)))"
    unfolding by_eq by blast
  from h hd_type have tagged: "tags_of (hd (issued_by ?R)) \<noteq> None"
    by (simp add: untagged_rtypes_def)
  with h have m: "tag_of (hd (issued_by ?R)) ''ManagedBy'' = Some (PString ''agentkit-pulumi'')"
    and e: "tag_of (hd (issued_by ?R)) ''Environment'' =
              map_option PString (map_of (strmap_entries example_heap (Tags example_config)) ''Environment'')"
    by simp_all
  from e have "tag_of (hd (issued_by ?R)) ''Environment'' = Some (PString ''production'')"
    by (simp add: user)
  with m tagged D V vpc iam obs d show ?thesis
    by (simp add: user)
qed

subsection \<open>Claim C10: mergeTags\<close>

text \<open>
  C10. For every base tag map and name, \<open>mergeTags\<close> returns a freshly allocated map
  that holds every key/value pair of the base map plus the key \<open>"Name"\<close> mapped to the
  given name (replacing the base map's \<open>"Name"\<close> entry if there is one), and leaves the
  base map unmodified. The base map is nil or an allocated map (a Go map has distinct
  keys). The returned address is the first unallocated one, so it is no address held
  before the call; every other map object, and every other kind of object, is unchanged.
\<close>

theorem mergeTags_fresh_copy:
  assumes "\<forall>a. base = Some a \<longrightarrow> a < next_addr h \<and> distinct (map fst (stringmaps h a))"
  shows "\<exists>h' result.
           mergeTags h base name = (h', result) \<and>
           result = next_addr h \<and> next_addr h' = Suc (next_addr h) \<and>
           map_of (stringmaps h' result) = (map_of (StringMap_entries h base))(''Name'' \<mapsto> name) \<and>
           (\<forall>a. a \<noteq> result \<longrightarrow> stringmaps h' a = stringmaps h a) \<and>
           StringMap_entries h' base = StringMap_entries h base \<and>
           strmaps h' = strmaps h \<and> iamcfgs h' = iamcfgs h \<and>
           stackbuilders h' = stackbuilders h \<and> agentbuilders h' = agentbuilders h"
proof (cases base)
  case None
  show ?thesis
    by (simp add: mergeTags_eq None StringMap_entries_def merged_tags_def)
next
  case (Some a)
  with assms have a: "a < next_addr h" and d: "distinct (map fst (stringmaps h a))"
    by simp_all
  from a have ne: "a \<noteq> next_addr h" by simp
  show ?thesis
    using a ne d
    by (simp add: mergeTags_eq Some StringMap_entries_def map_of_merged_tags)
qed

text \<open>At a base map that already has a \<open>"Name"\<close> entry.\<close>

theorem mergeTags_fresh_copy_witness:
  "0 < next_addr (example_heap\<lparr>stringmaps := (\<lambda>a. [])(0 := [(''Team'', PString ''ai''), (''Name'', PString ''old'')])\<rparr>) \<and>
   distinct (map fst [(''Team'', PString ''ai''), (''Name'', PString ''old'')]) \<and>
   (\<exists>h'. mergeTags (example_heap\<lparr>stringmaps := (\<lambda>a. [])(0 := [(''Team'', PString ''ai''), (''Name'', PString ''old'')])\<rparr>)
            (Some 0) (PString ''my-agents-vpc'') = (h', 2) \<and>
          map_of (stringmaps h' 2) ''Name'' = Some (PString ''my-agents-vpc'') \<and>
          map_of (stringmaps h' 2) ''Team'' = Some (PString ''ai'') \<and>
          stringmaps h' 0 = [(''Team'', PString ''ai''), (''Name'', PString ''old'')])"
proof -
  let ?h = "example_heap\<lparr>stringmaps := (\<lambda>a. [])(0 := [(''Team'', PString ''ai''), (''Name'', PString ''old'')])\<rparr>"
  have hyp: "\<forall>a. Some 0 = Some a \<longrightarrow> a < next_addr ?h \<and> distinct (map fst (stringmaps ?h a))"
    by (simp add: example_heap_def)
  from mergeTags_fresh_copy [OF hyp, of "PString ''my-agents-vpc''"] obtain h' result where
    r: "mergeTags ?h (Some 0) (PString ''my-agents-vpc'') = (h', result)"
      "result = next_addr ?h"
      "map_of (stringmaps h' result) =
         (map_of (StringMap_entries ?h (Some 0)))(''Name'' \<mapsto> PString ''my-agents-vpc'')"
      "StringMap_entries h' (Some 0) = StringMap_entries ?h (Some 0)"
    by blast
  from r have "mergeTags ?h (Some 0) (PString ''my-agents-vpc'') = (h', 2)"
    by (simp add: example_heap_def)
  moreover from r have "map_of (stringmaps h' 2) ''Name'' = Some (PString ''my-agents-vpc'')"
    and "map_of (stringmaps h' 2) ''Team'' = Some (PString ''ai'')"
    by (simp_all add: example_heap_def StringMap_entries_def)
  moreover from r have "stringmaps h' 0 = [(''Team'', PString ''ai''), (''Name'', PString ''old'')]"
    by (simp add: example_heap_def StringMap_entries_def)
  ultimately show ?thesis
    by (simp add: example_heap_def)
qed

subsection \<open>Claim C6: builder calls\<close>










subsection \<open>Claim C7: the Must wrappers\<close>

lemma NewAgentCoreStack_returns:
  assumes "sections_present X (heap st) c0"
  shows "\<exists>st' stack err.
           NewAgentCoreStack X st c0 = (st', Return (stack, err)) \<and> (err = None \<longleftrightarrow> stack \<noteq> None)"
proof -
  obtain h0 cfg where D: "ApplyDefaults X (heap st) c0 = (h0, cfg)"
    by (cases "ApplyDefaults X (heap st) c0")
  show ?thesis
  proof (cases "Validate X h0 cfg")
    case (Some e)
    with D show ?thesis by (simp add: NewAgentCoreStack_def)
  next
    case None
    with assms D obtain vpc p obs where
      s: "VPC cfg = Some vpc" "IAM cfg = Some p" "Observability cfg = Some obs"
      by (auto simp add: sections_present_def)
    from NewAgentCoreStack_outcome [OF D None s] obtain st' stack err n c' where
      run: "NewAgentCoreStack X st c0 = (st', Return (stack, err))"
      and res: "case err of
                  Some e \<Rightarrow> stack = None \<and> ctx st' = c'
                | None \<Rightarrow> stack = Some (snd (exportOutputs c' (translated_stack cfg vpc obs))) \<and>
                           ctx st' = fst (exportOutputs c' (translated_stack cfg vpc obs))"
      by blast
    from res have "err = None \<longleftrightarrow> stack \<noteq> None" by (cases err) simp_all
    with run show ?thesis by blast
  qed
qed

text \<open>
  C7. Provided \<open>ApplyDefaults\<close> gives a valid configuration its sections (for the
  builder's configuration, and for a configuration loaded from the file): \<open>Build\<close> and
  \<open>NewStackFromFile\<close> return, with an error exactly when they return a nil stack, and
  never panic; \<open>MustBuild\<close> panics, with the error as its value, exactly when \<open>Build\<close>
  returns an error, and otherwise returns the stack \<open>Build\<close> returns, from the same
  state; \<open>MustNewStackFromFile\<close> panics, with a message that names the path and the
  error, exactly when \<open>NewStackFromFile\<close> returns an error, and otherwise returns its
  stack.
\<close>

theorem must_wrappers:
  assumes "sections_present X (heap st) (config (stackbuilders (heap st) b))"
    and "\<forall>h1 cfg. LoadStackConfigFromFile X (heap st) configPath = (h1, Inr cfg) \<longrightarrow>
           sections_present X h1 cfg"
  shows "(\<exists>st' stack err.
            Build X st b = (st', Return (stack, err)) \<and>
            (err = None \<longleftrightarrow> stack \<noteq> None) \<and>
            MustBuild X st b =
              (st', case err of Some e \<Rightarrow> Panic (PanicError e) | None \<Rightarrow> Return stack)) \<and>
         (\<exists>st' stack err.
            NewStackFromFile X st configPath = (st', Return (stack, err)) \<and>
            (err = None \<longleftrightarrow> stack \<noteq> None) \<and>
            MustNewStackFromFile X st configPath =
              (st', case err of
                      Some e \<Rightarrow> Panic (PanicString (''failed to create stack from '' @ configPath @ '': '' @ Error e))
                    | None \<Rightarrow> Return stack))"
proof
  from NewAgentCoreStack_returns [OF assms(1)] obtain st' stack err where
    run: "Build X st b = (st', Return (stack, err))" and iff: "err = None \<longleftrightarrow> stack \<noteq> None"
    unfolding Build_def by blast
  have "MustBuild X st b = (st', case err of Some e \<Rightarrow> Panic (PanicError e) | None \<Rightarrow> Return stack)"
    by (simp add: MustBuild_def run split: option.splits)
  with run iff show "\<exists>st' stack err.
      Build X st b = (st', Return (stack, err)) \<and>
      (err = None \<longleftrightarrow> stack \<noteq> None) \<and>
      MustBuild X st b = (st', case err of Some e \<Rightarrow> Panic (PanicError e) | None \<Rightarrow> Return stack)"
    by blast
next
  obtain h1 r where L: "LoadStackConfigFromFile X (heap st) configPath = (h1, r)"
    by (cases "LoadStackConfigFromFile X (heap st) configPath")
  have "\<exists>st' stack err.
      NewStackFromFile X st configPath = (st', Return (stack, err)) \<and> (err = None \<longleftrightarrow> stack \<noteq> None)"
  proof (cases r)
    case (Inl e)
    with L show ?thesis by (simp add: NewStackFromFile_def)
  next
    case (Inr cfg)
    with L assms(2) have "sections_present X (heap (st\<lparr>heap := h1\<rparr>)) cfg" by simp
    from NewAgentCoreStack_returns [OF this] L Inr show ?thesis
      by (simp add: NewStackFromFile_def)
  qed
  then obtain st' stack err where
    run: "NewStackFromFile X st configPath = (st', Return (stack, err))"
    and iff: "err = None \<longleftrightarrow> stack \<noteq> None"
    by blast
  have "MustNewStackFromFile X st configPath =
      (st', case err of
              Some e \<Rightarrow> Panic (PanicString (''failed to create stack from '' @ configPath @ '': '' @ Error e))
            | None \<Rightarrow> Return stack)"
    by (simp add: MustNewStackFromFile_def run split: option.splits)
  with run iff show "\<exists>st' stack err.
      NewStackFromFile X st configPath = (st', Return (stack, err)) \<and>
      (err = None \<longleftrightarrow> stack \<noteq> None) \<and>
      MustNewStackFromFile X st configPath =
        (st', case err of
                Some e \<Rightarrow> Panic (PanicString (''failed to create stack from '' @ configPath @ '': '' @ Error e))
              | None \<Rightarrow> Return stack)"
    by blast
qed

theorem must_wrappers_witness:
  "(\<exists>st' stack. MustBuild example_externals example_state 0 = (st', Return (Some stack))) \<and>
   (\<exists>st'. MustBuild example_externals unnamed_state 3 =
      (st', Panic (PanicError (Errorf ''invalid stack configuration: ''
                                 (ExternalError ''stack name is required''))))) \<and>
   (\<exists>st'. MustNewStackFromFile example_externals example_state ''agents.yaml'' =
      (st', Panic (PanicString ''failed to create stack from agents.yaml: no such file'')))"
proof -
  have load: "\<forall>h1 cfg. LoadStackConfigFromFile example_externals (heap st) ''agents.yaml'' =
      (h1, Inr cfg) \<longrightarrow> sections_present example_externals h1 cfg" for st
    by (simp add: example_externals_def)
  have cfg: "config (stackbuilders (heap example_state) 0) = example_config"
    by (simp add: example_state_def example_heap_def)
  have present: "sections_present example_externals (heap example_state)
      (config (stackbuilders (heap example_state) 0))"
    by (simp add: sections_present_def example_externals_def cfg example_config_def)
  have unnamed: "StackName (config (stackbuilders (heap unnamed_state) 3)) = []"
    by (simp add: unnamed_state_def example_heap_def NewStackBuilder_def new_strmap_def
        new_StackBuilder_def)
  then have absent: "sections_present example_externals (heap unnamed_state)
      (config (stackbuilders (heap unnamed_state) 3))"
    by (simp add: sections_present_def example_externals_def)
  have "\<exists>vpc p obs. VPC example_config = Some vpc \<and> IAM example_config = Some p \<and>
      Observability example_config = Some obs \<and> StackName example_config \<noteq> []"
    by (simp add: example_config_def)
  then obtain vpc p obs where "VPC example_config = Some vpc" "IAM example_config = Some p"
    "Observability example_config = Some obs" "StackName example_config \<noteq> []"
    by blast
  from example_succeeds [OF this] obtain st1 stack1 where
    "NewAgentCoreStack example_externals example_state example_config =
       (st1, Return (Some stack1, None))"
    by blast
  then have run1: "Build example_externals example_state 0 = (st1, Return (Some stack1, None))"
    unfolding Build_def cfg .
  from unnamed have run2: "Build example_externals unnamed_state 3 =
      (unnamed_state, Return (None, Some (Errorf ''invalid stack configuration: ''
                                            (ExternalError ''stack name is required''))))"
    by (simp add: Build_def NewAgentCoreStack_def example_externals_def)
  have run3: "NewStackFromFile example_externals example_state ''agents.yaml'' =
      (example_state, Return (None, Some (ExternalError ''no such file'')))"
    by (simp add: NewStackFromFile_def example_externals_def)
  from must_wrappers [OF present load] run1 run3
  have 1: "\<exists>st' stack. MustBuild example_externals example_state 0 = (st', Return (Some stack))"
    and 3: "\<exists>st'. MustNewStackFromFile example_externals example_state ''agents.yaml'' =
      (st', Panic (PanicString ''failed to create stack from agents.yaml: no such file''))"
    by auto
  from must_wrappers [OF absent load] run2
  have 2: "\<exists>st'. MustBuild example_externals unnamed_state 3 =
      (st', Panic (PanicError (Errorf ''invalid stack configuration: ''
                                 (ExternalError ''stack name is required''))))"
    by auto
  from 1 2 3 show ?thesis by blast
qed

end
